theory Spec2Isabelle
  imports Complex_Main "HOL-Library.Word"
begin

section \<open>Durations and instants\<close>

text \<open>
  Go's \<open>time.Duration\<close> is an \<open>int64\<close> count of nanoseconds. The durations of this
  program are only compared with zero and handed on, and the one product that is
  computed (\<open>2 * 24 * time.Hour\<close>) is a constant expression, which Go evaluates exactly
  and rejects at compile time if it does not fit; so a duration is an \<open>int\<close>, and
  the conversions \<open>int64(d)\<close> and \<open>time.Duration(n)\<close> between 64-bit integers leave
  the number as it is. The constants are those of package \<open>time\<close>.
\<close>

type_synonym duration = int

definition Nanosecond :: duration where
  "Nanosecond = 1"

definition Microsecond :: duration where
  "Microsecond = 1000 * Nanosecond"

definition Millisecond :: duration where
  "Millisecond = 1000 * Microsecond"

definition Second :: duration where
  "Second = 1000 * Millisecond"

definition Minute :: duration where
  "Minute = 60 * Second"

definition Hour :: duration where
  "Hour = 60 * Minute"

text \<open>
  The conversion \<open>int64(x)\<close> of an integer: the low 64 bits, read as a signed number.
\<close>

definition int64 :: "int \<Rightarrow> int" where
  "int64 x = sint (word_of_int x :: 64 word)"

text \<open>
  An instant (\<open>time.Time\<close>) is the number of nanoseconds since the Unix epoch, as an
  unbounded integer. The zero value \<open>time.Time{}\<close> is January 1 of year 1, which lies
  62135596800 seconds before the epoch; \<open>IsZero\<close> recognises exactly that instant, so
  \<open>time.Unix(0, 0)\<close> is not zero.
\<close>

type_synonym time = int

definition zeroTime :: time where
  "zeroTime = - 62135596800 * Second"

definition IsZero :: "time \<Rightarrow> bool" where
  "IsZero t \<longleftrightarrow> t = zeroTime"

definition After :: "time \<Rightarrow> time \<Rightarrow> bool" where
  "After t u \<longleftrightarrow> u < t"

text \<open>
  \<open>timestamp.FromTime\<close> of the store's library:
  \<open>t.Unix()*1000 + int64(t.Nanosecond())/int64(time.Millisecond)\<close>, the milliseconds
  since the epoch, rounded down.
\<close>

definition FromTime :: "time \<Rightarrow> int" where
  "FromTime t = (t div Second) * 1000 + (t mod Second) div Millisecond"

section \<open>The retention window of the store (cmd/telliot/cmds.go)\<close>

text \<open>
  \<open>mineCmd.Run\<close> takes the default options of the store and overwrites one field:
  \<open>tsdbOptions.RetentionDuration = int64(2 * 24 * time.Hour)\<close>. The other defaults are a
  parameter here. The store reads the field in milliseconds.
\<close>

record tsdbOptions =
  RetentionDuration :: int
  MinBlockDuration :: int
  MaxBlockDuration :: int

definition mineCmdTsdbOptions :: "tsdbOptions \<Rightarrow> tsdbOptions" where
  "mineCmdTsdbOptions defaultOptions =
     defaultOptions\<lparr>RetentionDuration := int64 (2 * 24 * Hour)\<rparr>"

text \<open>The number of milliseconds in a duration, and the duration a count of milliseconds stands for.\<close>

definition Milliseconds :: "duration \<Rightarrow> int" where
  "Milliseconds d = d div Millisecond"

definition ofMilliseconds :: "int \<Rightarrow> duration" where
  "ofMilliseconds n = n * Millisecond"

section \<open>The source catalog (pkg/tracker/index/index.go)\<close>

subsection \<open>Errors\<close>

text \<open>
  A Go \<open>error\<close> value is \<open>nil\<close> or an error: \<open>error option\<close>. An error is raised
  by the operating system or a library (\<open>External\<close>), made by \<open>errors.New\<close>, or made
  by \<open>errors.Wrap\<close> and \<open>errors.Wrapf\<close> of github.com/pkg/errors around another
  error. \<open>Wrap\<close> and \<open>Wrapf\<close> return \<open>nil\<close> when the error they are given is \<open>nil\<close>.
\<close>

datatype error = External string | New string | Wrapped error string

fun Wrap :: "error option \<Rightarrow> string \<Rightarrow> error option" where
  "Wrap None msg = None"
| "Wrap (Some e) msg = Some (Wrapped e msg)"

definition Wrapf :: "error option \<Rightarrow> string \<Rightarrow> error option" where
  "Wrapf err msg = Wrap err msg"

subsection \<open>Descriptors and configuration\<close>

text \<open>\<open>IndexType\<close> and \<open>ParserType\<close> are string types; their constants follow.\<close>

type_synonym IndexType = string
type_synonym ParserType = string

definition httpSource :: IndexType where
  "httpSource = ''http''"

definition ethereumSource :: IndexType where
  "ethereumSource = ''ethereum''"

definition manualSource :: IndexType where
  "manualSource = ''manualData''"

definition fileParser :: ParserType where
  "fileParser = ''jsonPath''"

definition jsonPathParser :: ParserType where
  "jsonPathParser = ''jsonPath''"

definition uniswapParser :: ParserType where
  "uniswapParser = ''Uniswap''"

definition balancerParser :: ParserType where
  "balancerParser = ''Balancer''"

record Api =
  api_URL :: string
  api_Type :: IndexType
  api_Parser :: ParserType
  api_Param :: string
  api_Interval :: duration

record Config =
  cfg_LogLevel :: string
  cfg_Interval :: duration
  cfg_FetchTimeout :: duration
  cfg_ApiFile :: string
  cfg_ManualDataFile :: string

subsection \<open>Parsers and data sources\<close>

text \<open>
  \<open>NewParser\<close> returns a \<open>JsonPathParser\<close> for the parser name \<open>jsonPath\<close> and the
  \<open>nil\<close> interface value for every other name.
\<close>

datatype Parser = JsonPathParser string | NilParser

definition NewParser :: "Api \<Rightarrow> Parser" where
  "NewParser t =
     (if api_Parser t = jsonPathParser then JsonPathParser (api_Param t) else NilParser)"

text \<open>
  The implementations of \<open>DataSource\<close>. \<open>JSONapi\<close> holds url, retryDelay, interval and
  parser; \<open>JSONfile\<close> holds parser and filepath. The on-chain sources hold the
  arguments of \<open>NewUniswap\<close> and \<open>NewBalancer\<close>: symbol, address and interval (the
  logger and the chain client carry no data of the model).
\<close>

datatype DataSource =
    JSONapi string duration duration Parser
  | JSONfile Parser string
  | Uniswap string string duration
  | Balancer string string duration

definition NewJSONapi :: "duration \<Rightarrow> duration \<Rightarrow> string \<Rightarrow> Parser \<Rightarrow> DataSource" where
  "NewJSONapi interval retryDelay url parser = JSONapi url retryDelay interval parser"

definition NewJSONfile :: "string \<Rightarrow> Parser \<Rightarrow> DataSource" where
  "NewJSONfile filepath parser = JSONfile parser filepath"

definition NewUniswap :: "string \<Rightarrow> string \<Rightarrow> duration \<Rightarrow> DataSource" where
  "NewUniswap symbol address interval = Uniswap symbol address interval"

definition NewBalancer :: "string \<Rightarrow> string \<Rightarrow> duration \<Rightarrow> DataSource" where
  "NewBalancer symbol address interval = Balancer symbol address interval"

text \<open>
  Modelled from the spec: the methods of the Uniswap and Balancer sources are in files
  of package index that are not at hand. The spec gives every variant an \<open>Interval\<close> and a
  \<open>Source\<close>, the canonical id; for an on-chain source they are taken to be the interval
  handed to the constructor and the address the descriptor was rebound to. The two
  other variants are as in the source: a \<open>JSONapi\<close> answers its interval and its url, a
  \<open>JSONfile\<close> answers 0 and its filepath.
\<close>

fun Interval :: "DataSource \<Rightarrow> duration" where
  "Interval (JSONapi url retryDelay interval parser) = interval"
| "Interval (JSONfile parser filepath) = 0"
| "Interval (Uniswap symbol address interval) = interval"
| "Interval (Balancer symbol address interval) = interval"

fun Source :: "DataSource \<Rightarrow> string" where
  "Source (JSONapi url retryDelay interval parser) = url"
| "Source (JSONfile parser filepath) = filepath"
| "Source (Uniswap symbol address interval) = address"
| "Source (Balancer symbol address interval) = address"

subsection \<open>createDataSources\<close>

text \<open>
  What \<open>createDataSources\<close> asks of the outside: the file system (\<open>ioutil.ReadFile\<close>),
  \<open>json.Unmarshal\<close> into \<open>map[string][]Api\<close> (the symbols in the order the loop ranges
  over them), the process environment (\<open>os.Expand\<close> with \<open>os.Getenv\<close>), the chain
  client's \<open>NetworkID\<close> and \<open>ethereum.GetAddressForNetwork\<close>.
\<close>

record loadEnv =
  ld_ReadFile :: "string \<Rightarrow> error + string"
  ld_Unmarshal :: "string \<Rightarrow> error + (string \<times> Api list) list"
  ld_Expand :: "string \<Rightarrow> string"
  ld_NetworkID :: "error + int"
  ld_GetAddressForNetwork :: "string \<Rightarrow> int \<Rightarrow> error + string"

text \<open>
  The body of the inner loop either leaves the function (\<open>return nil, err\<close>, where
  \<open>err\<close> is whatever error value the statement computes) or has built a source.
\<close>

datatype bodyResult = Return "error option" | Built DataSource

definition createDataSource :: "loadEnv \<Rightarrow> Config \<Rightarrow> string \<Rightarrow> Api \<Rightarrow> bodyResult" where
  "createDataSource env cfg symbol api0 =
     (let api1 = api0\<lparr>api_URL := ld_Expand env (api_URL api0)\<rparr>;
          api2 = (if api_Type api1 = [] then api1\<lparr>api_Type := httpSource\<rparr> else api1);
          api3 = (if api_Interval api2 \<noteq> 0
                  then api2\<lparr>api_Interval := cfg_Interval cfg\<rparr> else api2);
          api = (if api_Parser api3 = [] then api3\<lparr>api_Parser := jsonPathParser\<rparr> else api3)
      in if api_Type api = httpSource then
           Built (NewJSONapi (api_Interval api) (cfg_FetchTimeout cfg) (api_URL api) (NewParser api))
         else if api_Type api = manualSource then
           Built (NewJSONfile (cfg_ManualDataFile cfg) (NewParser api))
         else if api_Type api = ethereumSource then
           (case ld_NetworkID env of
              Inl e \<Rightarrow> Return (Some e)
            | Inr netID \<Rightarrow>
                (case ld_GetAddressForNetwork env (api_URL api) (int64 netID) of
                   Inl e \<Rightarrow> Return (Wrap (Some e) ''getting address for network id'')
                 | Inr address \<Rightarrow>
                     if api_Parser api = uniswapParser then
                       Built (NewUniswap symbol address (api_Interval api))
                     else if api_Parser api = balancerParser then
                       Built (NewBalancer symbol address (api_Interval api))
                     else Return (Wrapf None ''unknown source for on-chain index tracker'')))
         else Return (Some (New ''unknown index type for index object'')))"

type_synonym dataSources = "string \<rightharpoonup> DataSource list"

text \<open>\<open>dataSources[symbol] = append(dataSources[symbol], source)\<close>; a missing key reads as the empty slice.\<close>

definition appendSource :: "dataSources \<Rightarrow> string \<Rightarrow> DataSource \<Rightarrow> dataSources" where
  "appendSource m symbol source =
     m(symbol \<mapsto> (case m symbol of None \<Rightarrow> [] | Some l \<Rightarrow> l) @ [source])"

text \<open>The two loops; \<open>Inl err\<close> is the early \<open>return nil, err\<close>.\<close>

fun apisLoop :: "loadEnv \<Rightarrow> Config \<Rightarrow> string \<Rightarrow> Api list \<Rightarrow> dataSources
    \<Rightarrow> error option + dataSources" where
  "apisLoop env cfg symbol [] m = Inr m"
| "apisLoop env cfg symbol (api # apis) m =
     (case createDataSource env cfg symbol api of
        Return err \<Rightarrow> Inl err
      | Built source \<Rightarrow> apisLoop env cfg symbol apis (appendSource m symbol source))"

fun indexesLoop :: "loadEnv \<Rightarrow> Config \<Rightarrow> (string \<times> Api list) list \<Rightarrow> dataSources
    \<Rightarrow> error option + dataSources" where
  "indexesLoop env cfg [] m = Inr m"
| "indexesLoop env cfg ((symbol, apis) # indexes) m =
     (case apisLoop env cfg symbol apis m of
        Inl err \<Rightarrow> Inl err
      | Inr m' \<Rightarrow> indexesLoop env cfg indexes m')"

text \<open>
  The result is Go's pair: the map (\<open>None\<close> is the \<open>nil\<close> map) and the error value
  (\<open>None\<close> is \<open>nil\<close>).
\<close>

definition createDataSources :: "loadEnv \<Rightarrow> Config \<Rightarrow> dataSources option \<times> error option" where
  "createDataSources env cfg =
     (case ld_ReadFile env (cfg_ApiFile cfg) of
        Inl e \<Rightarrow> (None, Wrapf (Some e) (''read index file path:'' @ cfg_ApiFile cfg))
      | Inr byteValue \<Rightarrow>
          (case ld_Unmarshal env byteValue of
             Inl e \<Rightarrow> (None, Wrap (Some e) ''parse index file'')
           | Inr indexes \<Rightarrow>
               (case indexesLoop env cfg indexes Map.empty of
                  Inl err \<Rightarrow> (None, err)
                | Inr m \<Rightarrow> (Some m, None))))"

text \<open>
  \<open>New\<close> keeps the map when the error value is \<open>nil\<close>. A \<open>nil\<close> map ranges as the
  empty map.
\<close>

definition New :: "loadEnv \<Rightarrow> Config \<Rightarrow> error + dataSources" where
  "New env cfg =
     (case createDataSources env cfg of
        (m, Some e) \<Rightarrow> Inl (Wrapped e ''create data sources'')
      | (m, None) \<Rightarrow> Inr (case m of None \<Rightarrow> Map.empty | Some m' \<Rightarrow> m'))"

subsection \<open>Run\<close>

text \<open>
  \<open>Run\<close> starts, for each symbol, one \<open>recordApiCount\<close> goroutine and one
  \<open>recordValues\<close> goroutine per source, with the arguments recorded here. The order
  in which Go ranges over the map is a parameter (\<open>symbols\<close>).
\<close>

datatype goroutine =
    RecordApiCount int string
  | RecordValues int string duration DataSource

definition valueInterval :: "Config \<Rightarrow> DataSource \<Rightarrow> duration" where
  "valueInterval cfg dataSource =
     (let interval = Interval dataSource
      in if interval = 0 then cfg_Interval cfg else interval)"

definition RunSymbol :: "Config \<Rightarrow> string \<Rightarrow> DataSource list \<Rightarrow> goroutine list" where
  "RunSymbol cfg symbol dss =
     RecordApiCount (int (length dss)) symbol
     # map (\<lambda>(delay, dataSource).
         RecordValues (int delay) symbol (valueInterval cfg dataSource) dataSource)
         (enumerate 0 dss)"

definition Run :: "Config \<Rightarrow> dataSources \<Rightarrow> string list \<Rightarrow> goroutine list" where
  "Run cfg m symbols =
     concat (map (\<lambda>symbol. case m symbol of None \<Rightarrow> [] | Some dss \<Rightarrow> RunSymbol cfg symbol dss)
       symbols)"

text \<open>
  What each goroutine does before its loop: \<open>recordValues\<close> sleeps
  \<open>time.Duration(delay)\<close>, that is \<open>delay\<close> nanoseconds, and opens a ticker of its
  interval; \<open>recordApiCount\<close> does not sleep and opens a ticker of the default
  interval. The sleep, the ticker and the instants of a run are in the section on
  sleep and ticker below.
\<close>

fun sleepDuration :: "goroutine \<Rightarrow> duration" where
  "sleepDuration (RecordApiCount count symbol) = 0"
| "sleepDuration (RecordValues delay symbol interval dataSource) = delay * Nanosecond"

fun tickerInterval :: "Config \<Rightarrow> goroutine \<Rightarrow> duration" where
  "tickerInterval cfg (RecordApiCount count symbol) = cfg_Interval cfg"
| "tickerInterval cfg (RecordValues delay symbol interval dataSource) = interval"

fun isRecordValues :: "goroutine \<Rightarrow> bool" where
  "isRecordValues (RecordValues delay symbol interval dataSource) = True"
| "isRecordValues (RecordApiCount count symbol) = False"

definition valueLoops :: "goroutine list \<Rightarrow> goroutine list" where
  "valueLoops gs = filter isRecordValues gs"

section \<open>The worker loops\<close>

subsection \<open>Get\<close>

text \<open>
  \<open>Get\<close> answers price, volume and the source's timestamp, or an error. A source built
  with the \<open>nil\<close> parser panics when it calls \<open>Parse\<close>: the third outcome. The
  \<open>float64\<close> values are stored and handed on, never computed with; they are reals here.
\<close>

datatype getResult = GetOk real real time | GetErr error | GetPanic

text \<open>
  What one iteration of a value loop asks of the outside: the file system, \<open>http.Fetch\<close>
  (url and retry delay), the outcome of \<open>JsonPathParser.Parse\<close> for a parameter and a
  document (it rests on the JSON, JSON-path and number parsing libraries), the
  \<open>Get\<close> of an on-chain source, the three readings of \<open>time.Now()\<close> in the order
  the body makes them, whether the store takes each of the two samples handed to
  \<open>appender.Append\<close> (it refuses a sample it finds out of order or duplicated; the body
  does not look at what \<open>Append\<close> returns), and the error value of
  \<open>appender.Commit()\<close>.
\<close>

record iterEnv =
  it_ReadFile :: "string \<Rightarrow> error + string"
  it_Fetch :: "string \<Rightarrow> duration \<Rightarrow> error + string"
  it_Parse :: "string \<Rightarrow> string \<Rightarrow> error + (real \<times> real \<times> time)"
  it_ChainGet :: "DataSource \<Rightarrow> getResult"
  it_NowStale :: time
  it_NowPrice :: time
  it_NowVolume :: time
  it_TakesPrice :: bool
  it_TakesVolume :: bool
  it_Commit :: "error option"

fun Parse :: "iterEnv \<Rightarrow> Parser \<Rightarrow> string \<Rightarrow> getResult" where
  "Parse env (JsonPathParser param) input =
     (case it_Parse env param input of
        Inl e \<Rightarrow> GetErr e
      | Inr (price, volume, timestamp) \<Rightarrow> GetOk price volume timestamp)"
| "Parse env NilParser input = GetPanic"

fun Get :: "iterEnv \<Rightarrow> DataSource \<Rightarrow> getResult" where
  "Get env (JSONapi url retryDelay interval parser) =
     (case it_Fetch env url retryDelay of
        Inl e \<Rightarrow> GetErr (Wrapped e ''fetching data from API'')
      | Inr vals \<Rightarrow> Parse env parser vals)"
| "Get env (JSONfile parser filepath) =
     (case it_ReadFile env filepath of
        Inl e \<Rightarrow> GetErr e
      | Inr b \<Rightarrow> Parse env parser b)"
| "Get env (Uniswap symbol address interval) = it_ChainGet env (Uniswap symbol address interval)"
| "Get env (Balancer symbol address interval) = it_ChainGet env (Balancer symbol address interval)"

subsection \<open>Samples and the state a worker acts on\<close>

text \<open>
  A sample is what \<open>Append\<close> is given: the labels, the timestamp in milliseconds and the
  value. A worker's state keeps two lists of samples: \<open>appended\<close>, every sample the
  worker has handed to \<open>Append\<close>, in order; and \<open>store\<close>, the samples that the store
  took, that is those it did not refuse, of a batch whose \<open>Commit\<close> returned \<open>nil\<close>,
  in the order they were appended.
\<close>

record sample =
  smp_labels :: "(string \<times> string) list"
  smp_t :: int
  smp_v :: real

definition PriceSuffix :: string where
  "PriceSuffix = ''_price''"

definition VolumeSuffix :: string where
  "VolumeSuffix = ''_volume''"

definition ApiCountSuffix :: string where
  "ApiCountSuffix = ''_api_count''"

text \<open>
  Where a worker stands: in its start-up sleep, at the \<open>select\<close> that opens an
  iteration, past it and about to run the body, blocked on \<open>ticker.C\<close>, returned, or
  stopped by a panic.
\<close>

datatype location = Sleeping | AtSelect | AtBody | AtTick | Exited | Crashed

record state =
  pc :: location
  ctxDone :: bool
  appended :: "sample list"
  store :: "sample list"
  getErrors :: "string \<Rightarrow> nat"
  prices :: "string \<rightharpoonup> real"
  volumes :: "string \<rightharpoonup> real"

text \<open>
  The events of a worker's run: the root context is cancelled (by \<open>Stop\<close>, from
  another goroutine, at any moment); \<open>time.Sleep\<close> returns; the worker executes the
  \<open>select\<close>; the worker executes the rest of the body, down to the receive on
  \<open>ticker.C\<close>, with what the outside answers; the receive on \<open>ticker.C\<close> completes. An
  event that the worker's location does not allow leaves the state as it is.
\<close>

datatype 'e event = Cancel | Wake | Select | Exec 'e | Tick

subsection \<open>recordValues\<close>

text \<open>
  \<open>util.SanitizeMetricName\<close> is in a package that is not at hand: it is the parameter
  \<open>sanitize\<close>. The body of the loop after the \<open>select\<close>:
\<close>

definition priceSample :: "(string \<Rightarrow> string) \<Rightarrow> string \<Rightarrow> DataSource \<Rightarrow> time \<Rightarrow> real \<Rightarrow> sample" where
  "priceSample sanitize symbol dataSource now price =
     \<lparr>smp_labels = [(''__name__'', sanitize (symbol @ PriceSuffix)), (''source'', Source dataSource)],
      smp_t = FromTime now, smp_v = price\<rparr>"

definition volumeSample :: "(string \<Rightarrow> string) \<Rightarrow> string \<Rightarrow> DataSource \<Rightarrow> time \<Rightarrow> real \<Rightarrow> sample" where
  "volumeSample sanitize symbol dataSource now volume =
     \<lparr>smp_labels = [(''__name__'', sanitize (symbol @ VolumeSuffix)), (''source'', Source dataSource)],
      smp_t = FromTime now, smp_v = volume\<rparr>"

text \<open>The samples of a batch that the store did not refuse.\<close>

definition accepted :: "(bool \<times> sample) list \<Rightarrow> sample list" where
  "accepted batch = map snd (filter fst batch)"

definition valuesBody :: "(string \<Rightarrow> string) \<Rightarrow> string \<Rightarrow> DataSource \<Rightarrow> iterEnv \<Rightarrow> state \<Rightarrow> state" where
  "valuesBody sanitize symbol dataSource env st =
     (case Get env dataSource of
        GetPanic \<Rightarrow> st\<lparr>pc := Crashed\<rparr>
      | GetErr err \<Rightarrow>
          st\<lparr>pc := AtTick,
             getErrors := (getErrors st)(Source dataSource := getErrors st (Source dataSource) + 1)\<rparr>
      | GetOk price volume ts \<Rightarrow>
          if \<not> IsZero ts \<and> After (it_NowStale env) ts then st\<lparr>pc := AtTick\<rparr>
          else
            (let p = priceSample sanitize symbol dataSource (it_NowPrice env) price;
                 v = volumeSample sanitize symbol dataSource (it_NowVolume env) volume
             in case it_Commit env of
                  Some err \<Rightarrow> st\<lparr>pc := AtTick, appended := appended st @ [p, v]\<rparr>
                | None \<Rightarrow>
                    st\<lparr>pc := AtTick,
                       appended := appended st @ [p, v],
                       store := store st @ accepted [(it_TakesPrice env, p), (it_TakesVolume env, v)],
                       prices := (prices st)(Source dataSource \<mapsto> price),
                       volumes := (volumes st)(Source dataSource \<mapsto> volume)\<rparr>))"

fun recordValuesStep :: "(string \<Rightarrow> string) \<Rightarrow> string \<Rightarrow> DataSource \<Rightarrow> state \<Rightarrow> iterEnv event \<Rightarrow> state" where
  "recordValuesStep sanitize symbol dataSource st Cancel = st\<lparr>ctxDone := True\<rparr>"
| "recordValuesStep sanitize symbol dataSource st Wake =
     (if pc st = Sleeping then st\<lparr>pc := AtSelect\<rparr> else st)"
| "recordValuesStep sanitize symbol dataSource st Select =
     (if pc st = AtSelect then (if ctxDone st then st\<lparr>pc := Exited\<rparr> else st\<lparr>pc := AtBody\<rparr>)
      else st)"
| "recordValuesStep sanitize symbol dataSource st (Exec env) =
     (if pc st = AtBody then valuesBody sanitize symbol dataSource env st else st)"
| "recordValuesStep sanitize symbol dataSource st Tick =
     (if pc st = AtTick then st\<lparr>pc := AtSelect\<rparr> else st)"

text \<open>
  The loop of \<open>recordValues(delay, symbol, interval, dataSource)\<close> over a sequence of
  events, without instants: every order of events is a run here. When \<open>Wake\<close> and \<open>Tick\<close>
  can happen, which the delay and the interval decide, is the matter of
  \<open>recordValuesTimed\<close> below, whose every run moves the worker by these steps.
\<close>

definition recordValues :: "(string \<Rightarrow> string) \<Rightarrow> int \<Rightarrow> string \<Rightarrow> duration \<Rightarrow> DataSource
    \<Rightarrow> iterEnv event list \<Rightarrow> state \<Rightarrow> state" where
  "recordValues sanitize delay symbol interval dataSource evs st =
     foldl (recordValuesStep sanitize symbol dataSource) st evs"

subsection \<open>recordApiCount\<close>

record countEnv =
  ce_Now :: time
  ce_Takes :: bool
  ce_Commit :: "error option"

definition countSample :: "(string \<Rightarrow> string) \<Rightarrow> string \<Rightarrow> time \<Rightarrow> int \<Rightarrow> sample" where
  "countSample sanitize symbol now count =
     \<lparr>smp_labels = [(''__name__'', sanitize (symbol @ ApiCountSuffix))],
      smp_t = FromTime now, smp_v = of_int count\<rparr>"

definition countBody :: "(string \<Rightarrow> string) \<Rightarrow> int \<Rightarrow> string \<Rightarrow> countEnv \<Rightarrow> state \<Rightarrow> state" where
  "countBody sanitize count symbol env st =
     (let c = countSample sanitize symbol (ce_Now env) count
      in case ce_Commit env of
           Some err \<Rightarrow> st\<lparr>pc := AtTick, appended := appended st @ [c]\<rparr>
         | None \<Rightarrow>
             st\<lparr>pc := AtTick,
                appended := appended st @ [c],
                store := store st @ accepted [(ce_Takes env, c)]\<rparr>)"

fun recordApiCountStep :: "(string \<Rightarrow> string) \<Rightarrow> int \<Rightarrow> string \<Rightarrow> state \<Rightarrow> countEnv event \<Rightarrow> state" where
  "recordApiCountStep sanitize count symbol st Cancel = st\<lparr>ctxDone := True\<rparr>"
| "recordApiCountStep sanitize count symbol st Wake =
     (if pc st = Sleeping then st\<lparr>pc := AtSelect\<rparr> else st)"
| "recordApiCountStep sanitize count symbol st Select =
     (if pc st = AtSelect then (if ctxDone st then st\<lparr>pc := Exited\<rparr> else st\<lparr>pc := AtBody\<rparr>)
      else st)"
| "recordApiCountStep sanitize count symbol st (Exec env) =
     (if pc st = AtBody then countBody sanitize count symbol env st else st)"
| "recordApiCountStep sanitize count symbol st Tick =
     (if pc st = AtTick then st\<lparr>pc := AtSelect\<rparr> else st)"

text \<open>
  The loop of \<open>recordApiCount(count, symbol)\<close> over a sequence of events, without
  instants; its ticker and its instants are in \<open>recordApiCountTimed\<close> below.
\<close>

definition recordApiCount :: "(string \<Rightarrow> string) \<Rightarrow> int \<Rightarrow> string \<Rightarrow> countEnv event list \<Rightarrow> state \<Rightarrow> state" where
  "recordApiCount sanitize count symbol evs st =
     foldl (recordApiCountStep sanitize count symbol) st evs"

text \<open>
  The state in which a worker starts: a value loop in its sleep, an api-count loop at
  its first \<open>select\<close>; nothing appended by it yet, counters and gauges as they are.
\<close>

definition startValues :: "bool \<Rightarrow> (string \<Rightarrow> nat) \<Rightarrow> state" where
  "startValues done errs =
     \<lparr>pc = Sleeping, ctxDone = done, appended = [], store = [], getErrors = errs,
      prices = Map.empty, volumes = Map.empty\<rparr>"

definition startApiCount :: "bool \<Rightarrow> (string \<Rightarrow> nat) \<Rightarrow> state" where
  "startApiCount done errs =
     \<lparr>pc = AtSelect, ctxDone = done, appended = [], store = [], getErrors = errs,
      prices = Map.empty, volumes = Map.empty\<rparr>"

text \<open>
  The readings of the clock that a sequence of events offers as timestamps, in order:
  those of the two \<open>Append\<close> calls of a value loop, that of the one \<open>Append\<close> call of an
  api-count loop.
\<close>

fun valuesClock :: "iterEnv event \<Rightarrow> time list" where
  "valuesClock (Exec env) = [it_NowPrice env, it_NowVolume env]"
| "valuesClock ev = []"

fun countClock :: "countEnv event \<Rightarrow> time list" where
  "countClock (Exec env) = [ce_Now env]"
| "countClock ev = []"

section \<open>Sleep, ticker and instants\<close>

text \<open>
  Instants of the monotonic clock, on which \<open>time.Sleep\<close> and the ticker run (the wall
  clock, which \<open>time.Now()\<close> reads for the timestamps, is apart and is part of what the
  outside answers). \<open>time.NewTicker(d)\<close> panics when \<open>d\<close> is not positive. A ticker
  made at instant \<open>t\<close> fires at \<open>t + d\<close>, \<open>t + 2d\<close>, \<dots>, whether or not anyone is
  receiving; its channel holds one tick, and a tick that finds the channel full is
  dropped. The state of a ticker: its period, the instant of the next tick that is
  still to be looked at, and whether a tick is waiting in the channel.
\<close>

record ticker =
  tk_period :: duration
  tk_next :: time
  tk_buffered :: bool

definition NewTicker :: "duration \<Rightarrow> time \<Rightarrow> ticker option" where
  "NewTicker d t =
     (if d \<le> 0 then None else Some \<lparr>tk_period = d, tk_next = t + d, tk_buffered = False\<rparr>)"

text \<open>
  The ticker brought up to instant \<open>u\<close>: when ticks have fired up to \<open>u\<close>, one of them
  is in the channel, the others were dropped, and the next tick is the first after \<open>u\<close>.
\<close>

definition advance :: "ticker \<Rightarrow> time \<Rightarrow> ticker" where
  "advance tk u =
     (if tk_next tk \<le> u
      then tk\<lparr>tk_buffered := True,
              tk_next := tk_next tk + tk_period tk * ((u - tk_next tk) div tk_period tk + 1)\<rparr>
      else tk)"

text \<open>
  A receive on the channel begun at instant \<open>t\<close>: it ends at \<open>ready\<close>, which is \<open>t\<close>
  itself when a tick is waiting and the instant of the next tick otherwise, and leaves
  the ticker as \<open>receive\<close> says.
\<close>

definition ready :: "ticker \<Rightarrow> time \<Rightarrow> time" where
  "ready tk t = (let tk' = advance tk t in if tk_buffered tk' then t else tk_next tk')"

definition receive :: "ticker \<Rightarrow> time \<Rightarrow> ticker" where
  "receive tk t =
     (let tk' = advance tk t
      in if tk_buffered tk' then tk'\<lparr>tk_buffered := False\<rparr>
         else tk'\<lparr>tk_next := tk_next tk' + tk_period tk'\<rparr>)"

text \<open>
  A worker with its instants: the instant the goroutine was started, the instant of its
  latest event, its ticker once it is made, the instant at which it reached the receive
  on \<open>ticker.C\<close>, and the instants at which it passed the \<open>select\<close> and entered the body
  (where a value loop calls \<open>Get\<close>), in order.
\<close>

record timed =
  worker :: state
  startedAt :: time
  clock :: time
  tick :: "ticker option"
  arrived :: time
  bodies :: "time list"

text \<open>
  An event at an instant. An event before the latest one does not happen. \<open>Wake\<close>:
  \<open>time.Sleep(sleep)\<close> returns, which it does no sooner than \<open>sleep\<close> after the start
  (at once when \<open>sleep\<close> is not positive), and \<open>time.NewTicker(interval)\<close> makes the
  ticker or panics. \<open>Select\<close>: the \<open>select\<close> is executed; unless the context is done
  the body is entered at this instant. \<open>Exec\<close>: the body has run and reaches the
  receive at this instant. \<open>Tick\<close>: the worker goes on after the receive, which it does
  no sooner than the receive ends. The move of the worker itself is that of the loop
  (\<open>core\<close>).
\<close>

fun timedStep :: "(state \<Rightarrow> 'e event \<Rightarrow> state) \<Rightarrow> duration \<Rightarrow> duration \<Rightarrow> timed
    \<Rightarrow> time \<times> 'e event \<Rightarrow> timed" where
  "timedStep core sleep interval ts (u, Cancel) =
     (if u < clock ts then ts
      else ts\<lparr>worker := core (worker ts) Cancel, clock := u\<rparr>)"
| "timedStep core sleep interval ts (u, Wake) =
     (if u < clock ts then ts
      else if pc (worker ts) = Sleeping \<and> startedAt ts + max 0 sleep \<le> u then
        (case NewTicker interval u of
           None \<Rightarrow> ts\<lparr>worker := (worker ts)\<lparr>pc := Crashed\<rparr>, clock := u\<rparr>
         | Some tk \<Rightarrow> ts\<lparr>worker := core (worker ts) Wake, clock := u, tick := Some tk\<rparr>)
      else ts)"
| "timedStep core sleep interval ts (u, Select) =
     (if u < clock ts then ts
      else if pc (worker ts) = AtSelect then
        ts\<lparr>worker := core (worker ts) Select, clock := u,
           bodies := (if ctxDone (worker ts) then bodies ts else bodies ts @ [u])\<rparr>
      else ts)"
| "timedStep core sleep interval ts (u, Exec env) =
     (if u < clock ts then ts
      else if pc (worker ts) = AtBody then
        ts\<lparr>worker := core (worker ts) (Exec env), clock := u, arrived := u\<rparr>
      else ts)"
| "timedStep core sleep interval ts (u, Tick) =
     (if u < clock ts then ts
      else case tick ts of
        None \<Rightarrow> ts
      | Some tk \<Rightarrow>
          if pc (worker ts) = AtTick \<and> ready tk (arrived ts) \<le> u then
            ts\<lparr>worker := core (worker ts) Tick, clock := u, tick := Some (receive tk (arrived ts))\<rparr>
          else ts)"

text \<open>
  \<open>recordValues(delay, symbol, interval, dataSource)\<close> with its instants:
  \<open>time.Sleep(time.Duration(delay))\<close>, a sleep of \<open>delay\<close> nanoseconds, then
  \<open>time.NewTicker(interval)\<close>, then the loop. \<open>recordApiCount(count, symbol)\<close> does not
  sleep and makes its ticker of the default interval.
\<close>

definition recordValuesTimedStep :: "(string \<Rightarrow> string) \<Rightarrow> int \<Rightarrow> string \<Rightarrow> duration \<Rightarrow> DataSource
    \<Rightarrow> timed \<Rightarrow> time \<times> iterEnv event \<Rightarrow> timed" where
  "recordValuesTimedStep sanitize delay symbol interval dataSource =
     timedStep (recordValuesStep sanitize symbol dataSource) (delay * Nanosecond) interval"

definition recordValuesTimed :: "(string \<Rightarrow> string) \<Rightarrow> int \<Rightarrow> string \<Rightarrow> duration \<Rightarrow> DataSource
    \<Rightarrow> (time \<times> iterEnv event) list \<Rightarrow> timed \<Rightarrow> timed" where
  "recordValuesTimed sanitize delay symbol interval dataSource tevs ts =
     foldl (recordValuesTimedStep sanitize delay symbol interval dataSource) ts tevs"

definition recordApiCountTimed :: "(string \<Rightarrow> string) \<Rightarrow> Config \<Rightarrow> int \<Rightarrow> string
    \<Rightarrow> (time \<times> countEnv event) list \<Rightarrow> timed \<Rightarrow> timed" where
  "recordApiCountTimed sanitize cfg count symbol tevs ts =
     foldl (timedStep (recordApiCountStep sanitize count symbol) 0 (cfg_Interval cfg)) ts tevs"

text \<open>A goroutine just started at instant \<open>t0\<close>: before its sleep and its ticker.\<close>

definition spawn :: "time \<Rightarrow> bool \<Rightarrow> (string \<Rightarrow> nat) \<Rightarrow> timed" where
  "spawn t0 done errs =
     \<lparr>worker = startValues done errs, startedAt = t0, clock = t0, tick = None, arrived = t0,
      bodies = []\<rparr>"

text \<open>The run of a value loop that \<open>Run\<close> has started.\<close>

fun goValues :: "(string \<Rightarrow> string) \<Rightarrow> goroutine \<Rightarrow> (time \<times> iterEnv event) list \<Rightarrow> timed \<Rightarrow> timed" where
  "goValues sanitize (RecordValues delay symbol interval dataSource) tevs ts =
     recordValuesTimed sanitize delay symbol interval dataSource tevs ts"
| "goValues sanitize (RecordApiCount count symbol) tevs ts = ts"

section \<open>An invariant\<close>

text \<open>
  The invariant of a run under a clock that does not go back: the samples handed to
  \<open>Append\<close> and those of the store are in the order of their timestamps, and none is
  later than a reading still to come.
\<close>

definition ordered :: "state \<Rightarrow> time list \<Rightarrow> bool" where
  "ordered st ts \<longleftrightarrow>
     sorted (map smp_t (appended st)) \<and> (\<forall>s \<in> set (appended st). \<forall>t \<in> set ts. smp_t s \<le> FromTime t)
     \<and> sorted (map smp_t (store st)) \<and> (\<forall>s \<in> set (store st). \<forall>t \<in> set ts. smp_t s \<le> FromTime t)"

section \<open>Example inputs\<close>

text \<open>
  A configuration with a default interval of 30 seconds, and an outside world for
  \<open>createDataSources\<close> in which the catalog file is readable and unmarshals to the
  given indexes, no environment variable occurs in a URL, and the chain client is on
  network 1 with an address for it.
\<close>

definition exampleCfg :: Config where
  "exampleCfg =
     \<lparr>cfg_LogLevel = ''info'', cfg_Interval = 30 * Second, cfg_FetchTimeout = 5 * Second,
      cfg_ApiFile = ''index.json'', cfg_ManualDataFile = ''manualData.json''\<rparr>"

definition exampleLoadEnv :: "(string \<times> Api list) list \<Rightarrow> loadEnv" where
  "exampleLoadEnv indexes =
     \<lparr>ld_ReadFile = (\<lambda>path. Inr ''{}''),
      ld_Unmarshal = (\<lambda>byteValue. Inr indexes),
      ld_Expand = (\<lambda>url. url),
      ld_NetworkID = Inr 1,
      ld_GetAddressForNetwork = (\<lambda>url netID. Inr ''0xabc'')\<rparr>"

definition exampleApi :: "IndexType \<Rightarrow> ParserType \<Rightarrow> duration \<Rightarrow> Api" where
  "exampleApi type parser interval =
     \<lparr>api_URL = ''http://t/'', api_Type = type, api_Parser = parser, api_Param = ''$.p'',
      api_Interval = interval\<rparr>"

text \<open>
  An outside world for one iteration: the fetch answers as given, the manual file is
  readable, the parser answers the given price, volume and timestamp, the store
  refuses no sample, and the clock and the commit are as given.
\<close>

definition exampleIterEnv :: "error + string \<Rightarrow> real \<times> real \<times> time \<Rightarrow> time \<Rightarrow> error option \<Rightarrow> iterEnv" where
  "exampleIterEnv fetched parsed now commit =
     \<lparr>it_ReadFile = (\<lambda>path. Inr ''[10, 0]''),
      it_Fetch = (\<lambda>url retryDelay. fetched),
      it_Parse = (\<lambda>param input. Inr parsed),
      it_ChainGet = (\<lambda>dataSource. GetErr (External ''no node'')),
      it_NowStale = now, it_NowPrice = now + 1, it_NowVolume = now + 2,
      it_TakesPrice = True, it_TakesVolume = True,
      it_Commit = commit\<rparr>"

definition exampleSource :: DataSource where
  "exampleSource = JSONapi ''http://t/'' (5 * Second) (30 * Second) (JsonPathParser ''$.p'')"

definition exampleFile :: DataSource where
  "exampleFile = JSONfile (JsonPathParser ''$.p'') ''manualData.json''"

definition exampleState :: "location \<Rightarrow> state" where
  "exampleState l =
     \<lparr>pc = l, ctxDone = False, appended = [], store = [], getErrors = (\<lambda>source. 0),
      prices = Map.empty, volumes = Map.empty\<rparr>"

text \<open>
  Three sources of one symbol, as \<open>Run\<close> starts their loops; and a value loop on the
  example source at instant 0, its ticker of 30 seconds just made.
\<close>

definition exampleLoops :: "goroutine list" where
  "exampleLoops =
     valueLoops (RunSymbol exampleCfg ''ETH/USD'' [exampleSource, exampleFile, exampleSource])"

definition exampleTimed :: "location \<Rightarrow> timed" where
  "exampleTimed l =
     \<lparr>worker = exampleState l, startedAt = 0, clock = 0,
      tick = Some \<lparr>tk_period = 30 * Second, tk_next = 30 * Second, tk_buffered = False\<rparr>,
      arrived = 0, bodies = [0]\<rparr>"

text \<open>A stand-in for \<open>SanitizeMetricName\<close> in the examples: the slash becomes an underscore.\<close>

definition exampleSanitize :: "string \<Rightarrow> string" where
  "exampleSanitize name = map (\<lambda>c. if c = CHR ''/'' then CHR ''_'' else c) name"

section \<open>Theorems\<close>

lemma Hour_eq: "Hour = 3600000000000"
  by (simp add: Hour_def Minute_def Second_def Millisecond_def Microsecond_def Nanosecond_def)

lemma Millisecond_eq: "Millisecond = 1000000"
  by (simp add: Millisecond_def Microsecond_def Nanosecond_def)

lemma Second_eq: "Second = 1000000000"
  by (simp add: Second_def Millisecond_eq)

lemma FromTime_floor: "FromTime t = t div Millisecond"
proof -
  have "t = (t div Second * 1000) * Millisecond + t mod Second"
    by (simp add: Second_eq Millisecond_eq)
  then have "t div Millisecond = ((t div Second * 1000) * Millisecond + t mod Second) div Millisecond"
    by simp
  also have "\<dots> = t div Second * 1000 + (t mod Second) div Millisecond"
    by (simp add: Millisecond_eq)
  finally show ?thesis
    by (simp add: FromTime_def)
qed

lemma FromTime_mono: "a \<le> b \<Longrightarrow> FromTime a \<le> FromTime b"
  by (simp add: FromTime_floor Millisecond_eq zdiv_mono1)

subsection \<open>The catalog loader and the start of the workers\<close>

lemma http_built:
  assumes "api_Type api = httpSource \<or> api_Type api = []"
  shows "createDataSource env cfg symbol api =
     Built (JSONapi (ld_Expand env (api_URL api)) (cfg_FetchTimeout cfg)
        (if api_Interval api \<noteq> 0 then cfg_Interval cfg else 0)
        (if api_Parser api = [] \<or> api_Parser api = jsonPathParser
         then JsonPathParser (api_Param api) else NilParser))"
  using assms
  by (cases "api_Type api = []"; cases "api_Interval api = 0"; cases "api_Parser api = []";
      simp add: createDataSource_def NewJSONapi_def NewParser_def httpSource_def)

text \<open>Whatever interval an http descriptor states, its value loop ticks at the default.\<close>

lemma http_polls_at_default:
  assumes "api_Type api = httpSource \<or> api_Type api = []"
  shows "\<exists>source. createDataSource env cfg symbol api = Built source
           \<and> valueInterval cfg source = cfg_Interval cfg"
  by (simp add: http_built [OF assms] valueInterval_def)

text \<open>
  C1. The tick of a value loop should be the larger of the descriptor's interval and the
  default. The catalog loader overwrites every interval that is not zero with the
  default (the test is the wrong way round), so a descriptor of 60 seconds under a
  default of 30 seconds is polled every 30 seconds, not every 60.
\<close>

theorem C1_long_interval_polls_at_default:
  "New (exampleLoadEnv [(''ETH/USD'', [exampleApi ''http'' ''jsonPath'' (60 * Second)])]) exampleCfg
     = Inr [''ETH/USD'' \<mapsto> [JSONapi ''http://t/'' (5 * Second) (30 * Second) (JsonPathParser ''$.p'')]]
   \<and> Run exampleCfg
        [''ETH/USD'' \<mapsto> [JSONapi ''http://t/'' (5 * Second) (30 * Second) (JsonPathParser ''$.p'')]]
        [''ETH/USD'']
     = [RecordApiCount 1 ''ETH/USD'',
        RecordValues 0 ''ETH/USD'' (30 * Second)
          (JSONapi ''http://t/'' (5 * Second) (30 * Second) (JsonPathParser ''$.p''))]
   \<and> tickerInterval exampleCfg (RecordValues 0 ''ETH/USD'' (30 * Second)
          (JSONapi ''http://t/'' (5 * Second) (30 * Second) (JsonPathParser ''$.p''))) = 30 * Second
   \<and> max (api_Interval (exampleApi ''http'' ''jsonPath'' (60 * Second))) (cfg_Interval exampleCfg)
     = 60 * Second"
proof -
  have built: "createDataSource (exampleLoadEnv ix) exampleCfg ''ETH/USD''
      (exampleApi ''http'' ''jsonPath'' (60 * Second))
      = Built (JSONapi ''http://t/'' (5 * Second) (30 * Second) (JsonPathParser ''$.p''))" for ix
    by (simp add: createDataSource_def exampleLoadEnv_def exampleCfg_def exampleApi_def
        httpSource_def jsonPathParser_def NewJSONapi_def NewParser_def Second_eq)
  have rd: "ld_ReadFile (exampleLoadEnv ix) p = Inr ''{}''" "ld_Unmarshal (exampleLoadEnv ix) b = Inr ix" for ix p b
    by (simp_all add: exampleLoadEnv_def)
  have new: "New (exampleLoadEnv [(''ETH/USD'', [exampleApi ''http'' ''jsonPath'' (60 * Second)])]) exampleCfg
     = Inr [''ETH/USD'' \<mapsto> [JSONapi ''http://t/'' (5 * Second) (30 * Second) (JsonPathParser ''$.p'')]]"
    by (simp add: New_def createDataSources_def rd built appendSource_def)
  have run: "Run exampleCfg
        [''ETH/USD'' \<mapsto> [JSONapi ''http://t/'' (5 * Second) (30 * Second) (JsonPathParser ''$.p'')]]
        [''ETH/USD'']
     = [RecordApiCount 1 ''ETH/USD'',
        RecordValues 0 ''ETH/USD'' (30 * Second)
          (JSONapi ''http://t/'' (5 * Second) (30 * Second) (JsonPathParser ''$.p''))]"
    by (simp add: Run_def RunSymbol_def valueInterval_def exampleCfg_def Second_eq)
  have mx: "max (api_Interval (exampleApi ''http'' ''jsonPath'' (60 * Second))) (cfg_Interval exampleCfg)
     = 60 * Second"
    by (simp add: exampleApi_def exampleCfg_def Second_eq)
  show ?thesis
    using new run mx by simp
qed

lemma RunSymbol_valueLoops:
  "valueLoops (RunSymbol cfg symbol dss) =
     map (\<lambda>(delay, dataSource).
         RecordValues (int delay) symbol (valueInterval cfg dataSource) dataSource)
       (enumerate 0 dss)"
  by (simp add: valueLoops_def RunSymbol_def filter_map o_def split_def)

text \<open>The sleep of the loop at ordinal \<open>i\<close> is \<open>i\<close> nanoseconds.\<close>

lemma sleep_of_ordinal:
  assumes "i < length dss"
  shows "valueLoops (RunSymbol cfg symbol dss) ! i
           = RecordValues (int i) symbol (valueInterval cfg (dss ! i)) (dss ! i)
         \<and> sleepDuration (valueLoops (RunSymbol cfg symbol dss) ! i) = int i * Nanosecond"
  using assms by (simp add: RunSymbol_valueLoops nth_enumerate_eq)

lemma exampleLoops_eq:
  "exampleLoops =
     [RecordValues 0 ''ETH/USD'' (30 * Second) exampleSource,
      RecordValues 1 ''ETH/USD'' (30 * Second) exampleFile,
      RecordValues 2 ''ETH/USD'' (30 * Second) exampleSource]"
  by (simp add: exampleLoops_def RunSymbol_valueLoops enumerate_simps valueInterval_def
      exampleSource_def exampleFile_def exampleCfg_def Second_eq)

text \<open>
  C2. The start-up delay should keep the first fetches of the sources of a symbol
  apart, one stagger unit per ordinal. The loops are started with the delays 0, 1, 2
  and sleep \<open>time.Duration(delay)\<close>, which is 0, 1 and 2 nanoseconds. The sleep lasts
  at least that long, so the delay does not keep two first fetches apart: the loops of
  ordinals 1 and 2, started together at instant 0, may both enter their first body, and
  call \<open>Get\<close>, at instant 2 (the sleep itself is kept: the loop of ordinal 2 does not
  wake at instant 1). And where each wakes exactly when its sleep ends, the three first
  fetches, at the instants 0, 1 and 2, lie in one and the same millisecond.
\<close>

theorem C2_stagger_is_nanoseconds:
  "exampleLoops =
     [RecordValues 0 ''ETH/USD'' (30 * Second) exampleSource,
      RecordValues 1 ''ETH/USD'' (30 * Second) exampleFile,
      RecordValues 2 ''ETH/USD'' (30 * Second) exampleSource]
   \<and> map sleepDuration exampleLoops = [0, 1, 2]
   \<and> bodies (goValues exampleSanitize (exampleLoops ! 1) [(2, Wake), (2, Select)]
        (spawn 0 False (\<lambda>source. 0))) = [2]
   \<and> bodies (goValues exampleSanitize (exampleLoops ! 2) [(2, Wake), (2, Select)]
        (spawn 0 False (\<lambda>source. 0))) = [2]
   \<and> bodies (goValues exampleSanitize (exampleLoops ! 2) [(1, Wake), (1, Select)]
        (spawn 0 False (\<lambda>source. 0))) = []
   \<and> map FromTime
        (bodies (goValues exampleSanitize (exampleLoops ! 0) [(0, Wake), (0, Select)]
           (spawn 0 False (\<lambda>source. 0)))
         @ bodies (goValues exampleSanitize (exampleLoops ! 1) [(1, Wake), (1, Select)]
           (spawn 0 False (\<lambda>source. 0)))
         @ bodies (goValues exampleSanitize (exampleLoops ! 2) [(2, Wake), (2, Select)]
           (spawn 0 False (\<lambda>source. 0)))) = [0, 0, 0]"
proof -
  have run: "bodies (recordValuesTimed exampleSanitize d ''ETH/USD'' iv ds
        [(u, Wake), (u, Select)] (spawn 0 False (\<lambda>source. 0)))
      = (if 0 \<le> u \<and> max 0 d \<le> u then [u] else [])" if "0 < iv" for d u ds iv
    using that
    by (simp add: recordValuesTimed_def recordValuesTimedStep_def spawn_def startValues_def
        NewTicker_def Nanosecond_def)
  show ?thesis
    by (simp add: exampleLoops_eq run Nanosecond_def FromTime_def Second_eq Millisecond_eq)
qed

text \<open>
  C3. A descriptor with an unknown parser name should make \<open>createDataSources\<close> return
  an error, whatever its type. It does not: for the types http and manualData the
  source is built around the \<open>nil\<close> parser and the error value is \<open>nil\<close>; for the type
  ethereum the function returns \<open>errors.Wrapf(err, \<dots>)\<close> of an \<open>err\<close> that is \<open>nil\<close>
  there, which is \<open>nil\<close>: a \<open>nil\<close> map and no error.
\<close>

theorem C3_unknown_parser_is_not_an_error:
  "createDataSources (exampleLoadEnv [(''ETH/USD'', [exampleApi ''http'' ''bogus'' 0])]) exampleCfg
     = (Some [''ETH/USD'' \<mapsto> [JSONapi ''http://t/'' (5 * Second) 0 NilParser]], None)
   \<and> createDataSources (exampleLoadEnv [(''ETH/USD'', [exampleApi ''manualData'' ''bogus'' 0])]) exampleCfg
     = (Some [''ETH/USD'' \<mapsto> [JSONfile NilParser ''manualData.json'']], None)
   \<and> createDataSources (exampleLoadEnv [(''ETH/USD'', [exampleApi ''ethereum'' ''bogus'' 0])]) exampleCfg
     = (None, None)"
proof -
  have h: "createDataSource (exampleLoadEnv ix) exampleCfg ''ETH/USD'' (exampleApi ''http'' ''bogus'' 0)
      = Built (JSONapi ''http://t/'' (5 * Second) 0 NilParser)" for ix
    by (simp add: createDataSource_def exampleLoadEnv_def exampleCfg_def exampleApi_def
        httpSource_def jsonPathParser_def NewJSONapi_def NewParser_def)
  have m: "createDataSource (exampleLoadEnv ix) exampleCfg ''ETH/USD'' (exampleApi ''manualData'' ''bogus'' 0)
      = Built (JSONfile NilParser ''manualData.json'')" for ix
    by (simp add: createDataSource_def exampleLoadEnv_def exampleCfg_def exampleApi_def
        httpSource_def manualSource_def jsonPathParser_def NewJSONfile_def NewParser_def)
  have e: "createDataSource (exampleLoadEnv ix) exampleCfg ''ETH/USD'' (exampleApi ''ethereum'' ''bogus'' 0)
      = Return None" for ix
    by (simp add: createDataSource_def exampleLoadEnv_def exampleCfg_def exampleApi_def
        httpSource_def manualSource_def ethereumSource_def jsonPathParser_def uniswapParser_def
        balancerParser_def Wrapf_def)
  have rd: "ld_ReadFile (exampleLoadEnv ix) p = Inr ''{}''" "ld_Unmarshal (exampleLoadEnv ix) b = Inr ix" for ix p b
    by (simp_all add: exampleLoadEnv_def)
  show ?thesis
    by (simp add: createDataSources_def rd h m e appendSource_def)
qed

subsection \<open>What the store takes of a batch\<close>

lemma accepted_two:
  "accepted [(a, p), (b, v)] = (if a then [p] else []) @ (if b then [v] else [])"
  by (simp add: accepted_def)

lemma accepted_one: "accepted [(a, c)] = (if a then [c] else [])"
  by (simp add: accepted_def)

subsection \<open>One iteration of a value loop\<close>

lemma waits_for_tick:
  "pc s = AtTick \<Longrightarrow>
     pc (recordValuesStep sanitize symbol dataSource s ev) = (if ev = Tick then AtSelect else AtTick)"
  by (cases ev) simp_all

text \<open>The end of a receive begun at \<open>t\<close>: not before \<open>t\<close>, and \<open>t\<close> itself when a tick has fired.\<close>

lemma ready_bounds:
  "t \<le> ready tk t \<and> ready tk t \<le> max t (tk_next tk)
   \<and> (tk_buffered tk \<or> tk_next tk \<le> t \<longrightarrow> ready tk t = t)"
  by (simp add: ready_def advance_def Let_def)

text \<open>
  C4, with what the ticker does. In an iteration whose \<open>Get\<close> returns an error, the
  error counter of the source goes up by exactly one and no other counter moves,
  nothing is handed to \<open>Append\<close> and the store is as it was, and the loop does one
  receive on its ticker before it calls \<open>Get\<close> again: it goes on no sooner than that
  receive ends. The ticker runs on from its making whatever the loop does, so the
  receive ends at the first tick since the receive before: at once, when that tick
  has fired while the body ran; otherwise at the next tick.
\<close>

theorem C4_get_error_counts_once:
  assumes "pc (worker ts) = AtBody" and "Get env dataSource = GetErr err"
    and "clock ts \<le> t" and "tick ts = Some tk"
  shows "(let ts' = recordValuesTimedStep sanitize delay symbol interval dataSource ts (t, Exec env)
          in getErrors (worker ts') (Source dataSource) = getErrors (worker ts) (Source dataSource) + 1
             \<and> (\<forall>src. src \<noteq> Source dataSource \<longrightarrow> getErrors (worker ts') src = getErrors (worker ts) src)
             \<and> appended (worker ts') = appended (worker ts)
             \<and> store (worker ts') = store (worker ts)
             \<and> pc (worker ts') = AtTick
             \<and> bodies ts' = bodies ts
             \<and> (\<forall>u ev. pc (worker (recordValuesTimedStep sanitize delay symbol interval dataSource ts' (u, ev)))
                      = (if ev = Tick \<and> ready tk t \<le> u then AtSelect else AtTick))
             \<and> t \<le> ready tk t \<and> ready tk t \<le> max t (tk_next tk)
             \<and> (tk_buffered tk \<or> tk_next tk \<le> t \<longrightarrow> ready tk t = t))"
proof -
  let ?ts' = "ts\<lparr>worker := (worker ts)\<lparr>pc := AtTick,
         getErrors := (getErrors (worker ts))(Source dataSource := getErrors (worker ts) (Source dataSource) + 1)\<rparr>,
       clock := t, arrived := t\<rparr>"
  have step: "recordValuesTimedStep sanitize delay symbol interval dataSource ts (t, Exec env) = ?ts'"
    using assms by (simp add: recordValuesTimedStep_def valuesBody_def)
  have nxt: "pc (worker (recordValuesTimedStep sanitize delay symbol interval dataSource ?ts' (u, ev)))
      = (if ev = Tick \<and> ready tk t \<le> u then AtSelect else AtTick)" for u ev
    using assms(4) ready_bounds [of t tk]
    by (cases ev) (auto simp: recordValuesTimedStep_def)
  show ?thesis
    unfolding Let_def step using nxt ready_bounds [of t tk] by simp
qed

text \<open>
  A fetch that fails with HTTP 500 after one second, under a ticker of 30 seconds made
  at instant 0: the counter of the URL goes from 0 to 1, the store stays empty, and the
  loop goes on at second 30 and not at second 29.
\<close>

theorem C4_witness:
  "getErrors (worker (recordValuesTimedStep exampleSanitize 0 ''BTC/USD'' (30 * Second) exampleSource
       (exampleTimed AtBody)
       (1 * Second, Exec (exampleIterEnv (Inl (External ''500'')) (1, 0, zeroTime) 0 None)))) ''http://t/'' = 1
   \<and> store (worker (recordValuesTimedStep exampleSanitize 0 ''BTC/USD'' (30 * Second) exampleSource
       (exampleTimed AtBody)
       (1 * Second, Exec (exampleIterEnv (Inl (External ''500'')) (1, 0, zeroTime) 0 None)))) = []
   \<and> pc (worker (recordValuesTimedStep exampleSanitize 0 ''BTC/USD'' (30 * Second) exampleSource
       (recordValuesTimedStep exampleSanitize 0 ''BTC/USD'' (30 * Second) exampleSource
         (exampleTimed AtBody)
         (1 * Second, Exec (exampleIterEnv (Inl (External ''500'')) (1, 0, zeroTime) 0 None)))
       (29 * Second, Tick))) = AtTick
   \<and> pc (worker (recordValuesTimedStep exampleSanitize 0 ''BTC/USD'' (30 * Second) exampleSource
       (recordValuesTimedStep exampleSanitize 0 ''BTC/USD'' (30 * Second) exampleSource
         (exampleTimed AtBody)
         (1 * Second, Exec (exampleIterEnv (Inl (External ''500'')) (1, 0, zeroTime) 0 None)))
       (30 * Second, Tick))) = AtSelect"
proof -
  let ?env = "exampleIterEnv (Inl (External ''500'')) (1, 0, zeroTime) 0 None"
  let ?tk = "\<lparr>tk_period = 30 * Second, tk_next = 30 * Second, tk_buffered = False\<rparr>"
  have h1: "pc (worker (exampleTimed AtBody)) = AtBody"
    by (simp add: exampleTimed_def exampleState_def)
  have h2: "Get ?env exampleSource = GetErr (Wrapped (External ''500'') ''fetching data from API'')"
    by (simp add: exampleIterEnv_def exampleSource_def)
  have h3: "clock (exampleTimed AtBody) \<le> 1 * Second"
    by (simp add: exampleTimed_def Second_eq)
  have h4: "tick (exampleTimed AtBody) = Some ?tk"
    by (simp add: exampleTimed_def)
  have rdy: "ready ?tk (1 * Second) = 30 * Second"
    by (simp add: ready_def advance_def Second_eq)
  have before: "getErrors (worker (exampleTimed AtBody)) ''http://t/'' = 0"
    "store (worker (exampleTimed AtBody)) = []" "Source exampleSource = ''http://t/''"
    by (simp_all add: exampleTimed_def exampleState_def exampleSource_def)
  have late: "\<not> 30 * Second \<le> 29 * Second"
    by (simp add: Second_eq)
  from C4_get_error_counts_once [OF h1 h2 h3 h4, of exampleSanitize 0 "''BTC/USD''" "30 * Second"]
  show ?thesis
    unfolding Let_def rdy before using late by simp
qed

text \<open>
  The loop does not always wait a full tick after a failure. A source polled every 2
  seconds with a fetch timeout of 5 seconds: the ticker is made at instant 0, the first
  \<open>Get\<close> is called at instant 0 and fails at second 5; the tick of second 2 is waiting
  in the channel, the receive ends at once, and the next \<open>Get\<close> is called at second 5,
  the very instant the failed one ended.
\<close>

theorem C4_no_wait_after_slow_failure_counterexample:
  "bodies (recordValuesTimed exampleSanitize 0 ''BTC/USD'' (2 * Second)
       (JSONapi ''http://t/'' (5 * Second) (2 * Second) (JsonPathParser ''$.p''))
       [(0, Wake), (0, Select),
        (5 * Second, Exec (exampleIterEnv (Inl (External ''timeout'')) (1, 0, zeroTime) 0 None)),
        (5 * Second, Tick), (5 * Second, Select)]
       (spawn 0 False (\<lambda>source. 0))) = [0, 5 * Second]
   \<and> getErrors (worker (recordValuesTimed exampleSanitize 0 ''BTC/USD'' (2 * Second)
       (JSONapi ''http://t/'' (5 * Second) (2 * Second) (JsonPathParser ''$.p''))
       [(0, Wake), (0, Select),
        (5 * Second, Exec (exampleIterEnv (Inl (External ''timeout'')) (1, 0, zeroTime) 0 None))]
       (spawn 0 False (\<lambda>source. 0)))) ''http://t/'' = 1
   \<and> arrived (recordValuesTimed exampleSanitize 0 ''BTC/USD'' (2 * Second)
       (JSONapi ''http://t/'' (5 * Second) (2 * Second) (JsonPathParser ''$.p''))
       [(0, Wake), (0, Select),
        (5 * Second, Exec (exampleIterEnv (Inl (External ''timeout'')) (1, 0, zeroTime) 0 None))]
       (spawn 0 False (\<lambda>source. 0))) = 5 * Second
   \<and> pc (worker (recordValuesTimed exampleSanitize 0 ''BTC/USD'' (2 * Second)
       (JSONapi ''http://t/'' (5 * Second) (2 * Second) (JsonPathParser ''$.p''))
       [(0, Wake), (0, Select),
        (5 * Second, Exec (exampleIterEnv (Inl (External ''timeout'')) (1, 0, zeroTime) 0 None)),
        (5 * Second, Tick), (5 * Second, Select)]
       (spawn 0 False (\<lambda>source. 0)))) = AtBody"
  by (simp add: recordValuesTimed_def recordValuesTimedStep_def spawn_def startValues_def
      NewTicker_def ready_def advance_def receive_def valuesBody_def
      exampleIterEnv_def Nanosecond_def Second_eq Let_def)

text \<open>
  C5. In an iteration whose \<open>Get\<close> succeeds with a timestamp that is not zero and lies
  before the current time, nothing is appended, no error counter moves (the state
  changes in nothing but the worker's location), and the loop blocks on its ticker.
\<close>

theorem C5_stale_is_dropped:
  assumes "pc st = AtBody" and "Get env dataSource = GetOk price volume ts"
    and "\<not> IsZero ts" and "ts < it_NowStale env"
  shows "(let st' = recordValuesStep sanitize symbol dataSource st (Exec env)
          in store st' = store st
             \<and> getErrors st' = getErrors st
             \<and> pc st' = AtTick
             \<and> st' = st\<lparr>pc := AtTick\<rparr>
             \<and> (\<forall>ev. pc (recordValuesStep sanitize symbol dataSource st' ev)
                      = (if ev = Tick then AtSelect else AtTick)))"
proof -
  have step: "recordValuesStep sanitize symbol dataSource st (Exec env) = st\<lparr>pc := AtTick\<rparr>"
    using assms by (simp add: valuesBody_def After_def)
  show ?thesis
    unfolding Let_def step by (simp add: waits_for_tick)
qed

text \<open>A manual entry stamped 1000 ns after the epoch, read at 2000 ns: only the location changes.\<close>

theorem C5_witness:
  "recordValuesStep exampleSanitize ''ETH/USD'' exampleFile (exampleState AtBody)
       (Exec (exampleIterEnv (Inr ''{}'') (10, 0, 1000) 2000 None)) = exampleState AtTick"
  using C5_stale_is_dropped [of "exampleState AtBody"
      "exampleIterEnv (Inr ''{}'') (10, 0, 1000) 2000 None" exampleFile 10 0 1000
      exampleSanitize "''ETH/USD''"]
  by (simp add: exampleState_def exampleIterEnv_def exampleFile_def Let_def IsZero_def zeroTime_def Second_eq)

text \<open>
  C6, with what the store does. In an iteration whose \<open>Get\<close> succeeds with price \<open>p\<close>,
  volume \<open>v\<close> and the zero timestamp, exactly two samples are handed to \<open>Append\<close> and
  \<open>Commit\<close> is called once: one named \<open>SanitizeMetricName(symbol + "_price")\<close> with
  value \<open>p\<close>, one named \<open>SanitizeMetricName(symbol + "_volume")\<close> with value \<open>v\<close>, each
  with the label \<open>source\<close> equal to the source's id and with the millisecond timestamp
  of the clock reading taken for it. The store gains those of the two that it does not
  refuse, when \<open>Commit\<close> returns no error: both, in this order, when it refuses
  none. When \<open>Commit\<close> returns an error the store gains nothing and the gauges are not
  set.
\<close>

theorem C6_zero_timestamp_appends_two_samples:
  assumes "pc st = AtBody" and "Get env dataSource = GetOk price volume ts" and "IsZero ts"
  shows "(let p = \<lparr>smp_labels = [(''__name__'', sanitize (symbol @ ''_price'')),
                               (''source'', Source dataSource)],
                  smp_t = FromTime (it_NowPrice env), smp_v = price\<rparr>;
              v = \<lparr>smp_labels = [(''__name__'', sanitize (symbol @ ''_volume'')),
                               (''source'', Source dataSource)],
                  smp_t = FromTime (it_NowVolume env), smp_v = volume\<rparr>;
              st' = recordValuesStep sanitize symbol dataSource st (Exec env)
          in st' =
               (case it_Commit env of
                  None \<Rightarrow>
                    st\<lparr>pc := AtTick,
                       appended := appended st @ [p, v],
                       store := store st @ accepted [(it_TakesPrice env, p), (it_TakesVolume env, v)],
                       prices := (prices st)(Source dataSource \<mapsto> price),
                       volumes := (volumes st)(Source dataSource \<mapsto> volume)\<rparr>
                | Some err \<Rightarrow> st\<lparr>pc := AtTick, appended := appended st @ [p, v]\<rparr>)
             \<and> appended st' = appended st @ [p, v]
             \<and> (it_Commit env = None \<and> it_TakesPrice env \<and> it_TakesVolume env
                  \<longrightarrow> store st' = store st @ [p, v])
             \<and> (it_Commit env \<noteq> None \<longrightarrow> store st' = store st))"
  using assms
  by (auto simp: valuesBody_def priceSample_def volumeSample_def PriceSuffix_def VolumeSuffix_def
      Let_def accepted_def split: option.split)

text \<open>A price of 1234.5 without volume or timestamp, the store and the commit refusing nothing.\<close>

theorem C6_witness:
  "store (recordValuesStep exampleSanitize ''BTC/USD'' exampleSource (exampleState AtBody)
       (Exec (exampleIterEnv (Inr ''{}'') (1234.5, 0, zeroTime) (1700000000 * Second) None))) =
     [\<lparr>smp_labels = [(''__name__'', ''BTC_USD_price''), (''source'', ''http://t/'')],
       smp_t = 1700000000000, smp_v = 1234.5\<rparr>,
      \<lparr>smp_labels = [(''__name__'', ''BTC_USD_volume''), (''source'', ''http://t/'')],
       smp_t = 1700000000000, smp_v = 0\<rparr>]"
proof -
  let ?env = "exampleIterEnv (Inr ''{}'') (1234.5, 0, zeroTime) (1700000000 * Second) None"
  have h1: "pc (exampleState AtBody) = AtBody"
    by (simp add: exampleState_def)
  have h2: "Get ?env exampleSource = GetOk 1234.5 0 zeroTime"
    by (simp add: exampleIterEnv_def exampleSource_def)
  have h3: "IsZero zeroTime"
    by (simp add: IsZero_def)
  have env: "it_Commit ?env = None" "it_TakesPrice ?env" "it_TakesVolume ?env"
    "FromTime (it_NowPrice ?env) = 1700000000000" "FromTime (it_NowVolume ?env) = 1700000000000"
    by (simp_all add: exampleIterEnv_def FromTime_def Second_eq Millisecond_eq)
  have names: "exampleSanitize (''BTC/USD'' @ ''_price'') = ''BTC_USD_price''"
    "exampleSanitize (''BTC/USD'' @ ''_volume'') = ''BTC_USD_volume''"
    "Source exampleSource = ''http://t/''" "store (exampleState AtBody) = []"
    by (simp_all add: exampleSanitize_def exampleSource_def exampleState_def)
  from C6_zero_timestamp_appends_two_samples [OF h1 h2 h3, of exampleSanitize "''BTC/USD''"]
  show ?thesis
    unfolding Let_def env names using env(1-3) by (simp add: accepted_def)
qed

text \<open>
  The statement that the two samples are always committed fails: where \<open>Commit\<close> returns
  an error, a fetch with the zero timestamp leaves the store empty; and where the store
  refuses both samples (which the body does not notice) and \<open>Commit\<close> returns \<open>nil\<close>,
  the store is empty as well.
\<close>

theorem C6_commit_failure_counterexample:
  "pc (exampleState AtBody) = AtBody
   \<and> Get (exampleIterEnv (Inr ''{}'') (1234.5, 0, zeroTime) 0 (Some (External ''disk full'')))
        exampleSource = GetOk 1234.5 0 zeroTime
   \<and> IsZero zeroTime
   \<and> store (recordValuesStep exampleSanitize ''BTC/USD'' exampleSource (exampleState AtBody)
        (Exec (exampleIterEnv (Inr ''{}'') (1234.5, 0, zeroTime) 0 (Some (External ''disk full''))))) = []
   \<and> store (recordValuesStep exampleSanitize ''BTC/USD'' exampleSource (exampleState AtBody)
        (Exec ((exampleIterEnv (Inr ''{}'') (1234.5, 0, zeroTime) 0 None)
           \<lparr>it_TakesPrice := False, it_TakesVolume := False\<rparr>))) = []"
  by (simp add: exampleState_def exampleIterEnv_def exampleSource_def IsZero_def valuesBody_def
      accepted_def Let_def)

subsection \<open>Cancellation\<close>

lemma values_step_idle:
  assumes "ctxDone st" and "pc st \<noteq> AtBody"
  shows "ctxDone (recordValuesStep sanitize symbol ds st ev)
         \<and> pc (recordValuesStep sanitize symbol ds st ev) \<noteq> AtBody
         \<and> store (recordValuesStep sanitize symbol ds st ev) = store st"
  using assms by (cases ev) simp_all

lemma values_run_idle:
  "ctxDone st \<Longrightarrow> pc st \<noteq> AtBody
     \<Longrightarrow> store (foldl (recordValuesStep sanitize symbol ds) st evs) = store st"
proof (induction evs arbitrary: st)
  case Nil
  then show ?case by simp
next
  case (Cons ev evs)
  from values_step_idle [OF Cons.prems, of sanitize symbol ds ev]
  have "store (foldl (recordValuesStep sanitize symbol ds) (recordValuesStep sanitize symbol ds st ev) evs)
        = store (recordValuesStep sanitize symbol ds st ev)"
    by (intro Cons.IH) simp_all
  with values_step_idle [OF Cons.prems, of sanitize symbol ds ev] show ?case by simp
qed

lemma valuesBody_effect:
  "pc (valuesBody sanitize symbol ds env st) \<noteq> AtBody
   \<and> ctxDone (valuesBody sanitize symbol ds env st) = ctxDone st
   \<and> length (store (valuesBody sanitize symbol ds env st)) \<le> length (store st) + 2"
  by (simp add: valuesBody_def Let_def accepted_two split: getResult.split option.split)

lemma values_run_done:
  "ctxDone st \<Longrightarrow>
     length (store (foldl (recordValuesStep sanitize symbol ds) st evs)) \<le> length (store st) + 2"
proof (induction evs arbitrary: st)
  case Nil
  then show ?case by simp
next
  case (Cons ev evs)
  let ?st' = "recordValuesStep sanitize symbol ds st ev"
  show ?case
  proof (cases "pc st = AtBody")
    case False
    with Cons.prems values_run_idle [of st sanitize symbol ds "ev # evs"] show ?thesis by simp
  next
    case atBody: True
    show ?thesis
    proof (cases ev)
      case (Exec env)
      with atBody have st': "?st' = valuesBody sanitize symbol ds env st" by simp
      from valuesBody_effect [of sanitize symbol ds env st] Cons.prems st'
      have "ctxDone ?st'" "pc ?st' \<noteq> AtBody" "length (store ?st') \<le> length (store st) + 2"
        by simp_all
      with values_run_idle [of ?st' sanitize symbol ds evs] show ?thesis by simp
    next
      case Cancel
      with atBody Cons.prems Cons.IH [of ?st'] show ?thesis by simp
    next
      case Wake
      with atBody Cons.prems Cons.IH [of ?st'] show ?thesis by simp
    next
      case Select
      with atBody Cons.prems Cons.IH [of ?st'] show ?thesis by simp
    next
      case Tick
      with atBody Cons.prems Cons.IH [of ?st'] show ?thesis by simp
    qed
  qed
qed

lemma count_step_idle:
  assumes "ctxDone st" and "pc st \<noteq> AtBody"
  shows "ctxDone (recordApiCountStep sanitize count symbol st ev)
         \<and> pc (recordApiCountStep sanitize count symbol st ev) \<noteq> AtBody
         \<and> store (recordApiCountStep sanitize count symbol st ev) = store st"
  using assms by (cases ev) simp_all

lemma count_run_idle:
  "ctxDone st \<Longrightarrow> pc st \<noteq> AtBody
     \<Longrightarrow> store (foldl (recordApiCountStep sanitize count symbol) st evs) = store st"
proof (induction evs arbitrary: st)
  case Nil
  then show ?case by simp
next
  case (Cons ev evs)
  from count_step_idle [OF Cons.prems, of sanitize count symbol ev]
  have "store (foldl (recordApiCountStep sanitize count symbol) (recordApiCountStep sanitize count symbol st ev) evs)
        = store (recordApiCountStep sanitize count symbol st ev)"
    by (intro Cons.IH) simp_all
  with count_step_idle [OF Cons.prems, of sanitize count symbol ev] show ?case by simp
qed

lemma countBody_effect:
  "pc (countBody sanitize count symbol env st) \<noteq> AtBody
   \<and> ctxDone (countBody sanitize count symbol env st) = ctxDone st
   \<and> length (store (countBody sanitize count symbol env st)) \<le> length (store st) + 1"
  by (simp add: countBody_def Let_def accepted_one split: option.split)

lemma count_run_done:
  "ctxDone st \<Longrightarrow>
     length (store (foldl (recordApiCountStep sanitize count symbol) st evs)) \<le> length (store st) + 1"
proof (induction evs arbitrary: st)
  case Nil
  then show ?case by simp
next
  case (Cons ev evs)
  let ?st' = "recordApiCountStep sanitize count symbol st ev"
  show ?case
  proof (cases "pc st = AtBody")
    case False
    with Cons.prems count_run_idle [of st sanitize count symbol "ev # evs"] show ?thesis by simp
  next
    case atBody: True
    show ?thesis
    proof (cases ev)
      case (Exec env)
      with atBody have st': "?st' = countBody sanitize count symbol env st" by simp
      from countBody_effect [of sanitize count symbol env st] Cons.prems st'
      have "ctxDone ?st'" "pc ?st' \<noteq> AtBody" "length (store ?st') \<le> length (store st) + 1"
        by simp_all
      with count_run_idle [of ?st' sanitize count symbol evs] show ?thesis by simp
    next
      case Cancel
      with atBody Cons.prems Cons.IH [of ?st'] show ?thesis by simp
    next
      case Wake
      with atBody Cons.prems Cons.IH [of ?st'] show ?thesis by simp
    next
      case Select
      with atBody Cons.prems Cons.IH [of ?st'] show ?thesis by simp
    next
      case Tick
      with atBody Cons.prems Cons.IH [of ?st'] show ?thesis by simp
    qed
  qed
qed

text \<open>
  C7, for a worker that has seen the signal. The cancellation signal is looked at in one place only, the \<open>select\<close>
  that opens an iteration. Once the signal is tripped, a worker that is not between
  that \<open>select\<close> and the end of the body appends nothing more, whatever happens next;
  a worker that passed the \<open>select\<close> before the signal was tripped still runs the body
  of that one iteration, so it adds at most two samples (a value loop) or one (an
  api-count loop), and nothing after that.
\<close>

theorem C7_no_append_once_cancellation_is_seen:
  "(ctxDone st \<and> pc st \<noteq> AtBody \<longrightarrow>
      store (recordValues sanitize delay symbol interval dataSource evs st) = store st)
   \<and> (ctxDone st \<longrightarrow>
      length (store (recordValues sanitize delay symbol interval dataSource evs st))
        \<le> length (store st) + 2)
   \<and> (ctxDone ct \<and> pc ct \<noteq> AtBody \<longrightarrow>
      store (recordApiCount sanitize count symbol cevs ct) = store ct)
   \<and> (ctxDone ct \<longrightarrow>
      length (store (recordApiCount sanitize count symbol cevs ct)) \<le> length (store ct) + 1)"
  unfolding recordValues_def recordApiCount_def
  using values_run_idle [of st sanitize symbol dataSource evs]
    values_run_done [of st sanitize symbol dataSource evs]
    count_run_idle [of ct sanitize count symbol cevs]
    count_run_done [of ct sanitize count symbol cevs]
  by blast

text \<open>
  Workers blocked on their tickers when the signal is tripped append nothing; workers
  caught in the body append at most their one batch.
\<close>

theorem C7_witness:
  "store (recordValues exampleSanitize 0 ''ETH/USD'' (30 * Second) exampleFile
       [Select, Exec (exampleIterEnv (Inr ''{}'') (10, 0, zeroTime) 0 None), Tick, Select]
       ((exampleState AtTick)\<lparr>ctxDone := True\<rparr>)) = []
   \<and> length (store (recordValues exampleSanitize 0 ''ETH/USD'' (30 * Second) exampleFile
       [Exec (exampleIterEnv (Inr ''{}'') (10, 0, zeroTime) 0 None), Tick, Select]
       ((exampleState AtBody)\<lparr>ctxDone := True\<rparr>))) \<le> 2
   \<and> store (recordApiCount exampleSanitize 3 ''ETH/USD''
       [Tick, Select, Exec \<lparr>ce_Now = 0, ce_Takes = True, ce_Commit = None\<rparr>]
       ((exampleState AtTick)\<lparr>ctxDone := True\<rparr>)) = []
   \<and> length (store (recordApiCount exampleSanitize 3 ''ETH/USD''
       [Exec \<lparr>ce_Now = 0, ce_Takes = True, ce_Commit = None\<rparr>, Tick, Select]
       ((exampleState AtBody)\<lparr>ctxDone := True\<rparr>))) \<le> 1"
  using C7_no_append_once_cancellation_is_seen [of "(exampleState AtTick)\<lparr>ctxDone := True\<rparr>"
      exampleSanitize 0 "''ETH/USD''" "30 * Second" exampleFile
      "[Select, Exec (exampleIterEnv (Inr ''{}'') (10, 0, zeroTime) 0 None), Tick, Select]"
      "(exampleState AtTick)\<lparr>ctxDone := True\<rparr>" 3 "[Tick, Select, Exec \<lparr>ce_Now = 0, ce_Takes = True, ce_Commit = None\<rparr>]"]
    C7_no_append_once_cancellation_is_seen [of "(exampleState AtBody)\<lparr>ctxDone := True\<rparr>"
      exampleSanitize 0 "''ETH/USD''" "30 * Second" exampleFile
      "[Exec (exampleIterEnv (Inr ''{}'') (10, 0, zeroTime) 0 None), Tick, Select]"
      "(exampleState AtBody)\<lparr>ctxDone := True\<rparr>" 3 "[Exec \<lparr>ce_Now = 0, ce_Takes = True, ce_Commit = None\<rparr>, Tick, Select]"]
  by (simp add: exampleState_def)

text \<open>
  From the instant of the cancellation itself the store is not stable: a value loop on
  the manual file passes its \<open>select\<close>, the signal is
  tripped, and the body, whose \<open>Get\<close> does not look at the context, still commits two
  samples to a store that was empty at the instant of the cancellation. An api-count
  loop does the same with its one sample.
\<close>

theorem C7_append_after_cancellation_counterexample:
  "ctxDone (recordValues exampleSanitize 0 ''ETH/USD'' (30 * Second) exampleFile
       [Wake, Select, Cancel] (startValues False (\<lambda>source. 0)))
   \<and> store (recordValues exampleSanitize 0 ''ETH/USD'' (30 * Second) exampleFile
       [Wake, Select, Cancel] (startValues False (\<lambda>source. 0))) = []
   \<and> length (store (recordValues exampleSanitize 0 ''ETH/USD'' (30 * Second) exampleFile
       [Wake, Select, Cancel, Exec (exampleIterEnv (Inr ''{}'') (10, 0, zeroTime) 0 None)]
       (startValues False (\<lambda>source. 0)))) = 2
   \<and> ctxDone (recordApiCount exampleSanitize 3 ''ETH/USD''
       [Select, Cancel] (startApiCount False (\<lambda>source. 0)))
   \<and> store (recordApiCount exampleSanitize 3 ''ETH/USD''
       [Select, Cancel] (startApiCount False (\<lambda>source. 0))) = []
   \<and> length (store (recordApiCount exampleSanitize 3 ''ETH/USD''
       [Select, Cancel, Exec \<lparr>ce_Now = 0, ce_Takes = True, ce_Commit = None\<rparr>]
       (startApiCount False (\<lambda>source. 0)))) = 1"
  by (simp add: recordValues_def recordApiCount_def startValues_def startApiCount_def
      valuesBody_def countBody_def exampleFile_def exampleIterEnv_def IsZero_def Let_def
      accepted_def)

text \<open>
  The runs with instants move the worker by the steps of the loop, or not at all, or
  stop it where \<open>NewTicker\<close> panics; so what holds of a worker that has seen the signal
  holds of them too.
\<close>

lemma timedStep_worker:
  "worker (timedStep core sleep interval ts (u, ev)) = worker ts
   \<or> worker (timedStep core sleep interval ts (u, ev)) = core (worker ts) ev
   \<or> worker (timedStep core sleep interval ts (u, ev)) = (worker ts)\<lparr>pc := Crashed\<rparr>"
  by (cases ev) (auto split: option.split)

lemma values_timed_step_idle:
  assumes "ctxDone (worker ts)" and "pc (worker ts) \<noteq> AtBody"
  shows "ctxDone (worker (recordValuesTimedStep sanitize delay symbol interval ds ts tev))
         \<and> pc (worker (recordValuesTimedStep sanitize delay symbol interval ds ts tev)) \<noteq> AtBody
         \<and> store (worker (recordValuesTimedStep sanitize delay symbol interval ds ts tev))
             = store (worker ts)"
proof -
  obtain u ev where tev: "tev = (u, ev)" by (cases tev)
  from timedStep_worker [of "recordValuesStep sanitize symbol ds" "delay * Nanosecond" interval ts u ev]
    values_step_idle [OF assms, of sanitize symbol ds ev] assms
  show ?thesis
    unfolding recordValuesTimedStep_def tev by auto
qed

lemma values_timed_run_idle:
  "ctxDone (worker ts) \<Longrightarrow> pc (worker ts) \<noteq> AtBody
     \<Longrightarrow> store (worker (recordValuesTimed sanitize delay symbol interval ds tevs ts))
           = store (worker ts)"
proof (induction tevs arbitrary: ts)
  case Nil
  then show ?case by (simp add: recordValuesTimed_def)
next
  case (Cons tev tevs)
  let ?ts' = "recordValuesTimedStep sanitize delay symbol interval ds ts tev"
  from values_timed_step_idle [OF Cons.prems, of sanitize delay symbol interval ds tev]
  have "ctxDone (worker ?ts')" "pc (worker ?ts') \<noteq> AtBody" "store (worker ?ts') = store (worker ts)"
    by simp_all
  with Cons.IH [of ?ts'] show ?case
    by (simp add: recordValuesTimed_def)
qed

text \<open>A loop whose interval is not positive stops in \<open>NewTicker\<close> and appends nothing.\<close>

lemma ticker_panics:
  assumes "interval \<le> 0" and "cfg_Interval cfg \<le> 0"
  shows "pc (worker (recordValuesTimed sanitize delay symbol interval ds
            [(t0 + max 0 (delay * Nanosecond), Wake)] (spawn t0 done errs))) = Crashed
         \<and> pc (worker (recordApiCountTimed sanitize cfg count symbol
            [(t0, Wake)] (spawn t0 done errs))) = Crashed"
  using assms
  by (simp add: recordValuesTimed_def recordValuesTimedStep_def recordApiCountTimed_def
      spawn_def startValues_def NewTicker_def)

subsection \<open>The order of timestamps\<close>

lemma ordered_tail: "ordered st (ts @ us) \<Longrightarrow> ordered st us"
  by (simp add: ordered_def)

lemma ordered_same:
  "appended st' = appended st \<Longrightarrow> store st' = store st \<Longrightarrow> ordered st ts \<Longrightarrow> ordered st' ts"
  by (simp add: ordered_def)

text \<open>
  New samples stamped with the next readings, of which the store keeps some: the order
  holds on.
\<close>

lemma ordered_grow:
  assumes srt: "sorted (ts @ us)" and ord: "ordered st (ts @ us)"
    and app: "appended st' = appended st @ new" and sto: "store st' = store st @ kept"
    and new: "sorted (map smp_t new)" "\<forall>s \<in> set new. \<exists>t \<in> set ts. smp_t s = FromTime t"
    and kept: "sorted (map smp_t kept)" "set kept \<subseteq> set new"
  shows "ordered st' us"
proof -
  have new_us: "smp_t s \<le> FromTime u" if "s \<in> set new" "u \<in> set us" for s u
  proof -
    from that(1) new(2) obtain t where t: "t \<in> set ts" "smp_t s = FromTime t" by blast
    from srt t(1) that(2) have "t \<le> u" by (auto simp: sorted_append)
    with t(2) show ?thesis by (simp add: FromTime_mono)
  qed
  have old_new: "smp_t x \<le> smp_t s"
    if "x \<in> set (appended st) \<or> x \<in> set (store st)" "s \<in> set new" for x s
  proof -
    from that(2) new(2) obtain t where t: "t \<in> set ts" "smp_t s = FromTime t" by blast
    from ord that(1) t(1) have "smp_t x \<le> FromTime t" by (auto simp: ordered_def)
    with t(2) show ?thesis by simp
  qed
  have a1: "sorted (map smp_t (appended st @ new))"
    using ord new(1) old_new by (auto simp: ordered_def sorted_append)
  have a2: "\<forall>s \<in> set (appended st @ new). \<forall>u \<in> set us. smp_t s \<le> FromTime u"
    using ord new_us by (auto simp: ordered_def)
  have s1: "sorted (map smp_t (store st @ kept))"
    using ord kept old_new by (auto simp: ordered_def sorted_append)
  have s2: "\<forall>s \<in> set (store st @ kept). \<forall>u \<in> set us. smp_t s \<le> FromTime u"
    using ord new_us kept(2) by (auto simp: ordered_def)
  show ?thesis
    unfolding ordered_def app sto using a1 a2 s1 s2 by blast
qed

lemma valuesBody_ordered:
  assumes "sorted ([it_NowPrice env, it_NowVolume env] @ us)"
    and "ordered st ([it_NowPrice env, it_NowVolume env] @ us)"
  shows "ordered (valuesBody sanitize symbol ds env st) us"
proof -
  let ?ts = "[it_NowPrice env, it_NowVolume env]"
  have bc: "FromTime (it_NowPrice env) \<le> FromTime (it_NowVolume env)"
    using assms(1) by (simp add: FromTime_mono)
  have idle: "ordered st' us" if "appended st' = appended st" "store st' = store st" for st'
    using that assms(2) ordered_tail [of st ?ts us] ordered_same [of st' st us] by simp
  show ?thesis
  proof (cases "Get env ds")
    case (GetOk price volume ts)
    let ?p = "priceSample sanitize symbol ds (it_NowPrice env) price"
    let ?v = "volumeSample sanitize symbol ds (it_NowVolume env) volume"
    have new: "sorted (map smp_t [?p, ?v])"
      "\<forall>s \<in> set [?p, ?v]. \<exists>t \<in> set ?ts. smp_t s = FromTime t"
      using bc by (simp_all add: priceSample_def volumeSample_def)
    show ?thesis
    proof (cases "\<not> IsZero ts \<and> After (it_NowStale env) ts")
      case True
      with GetOk idle show ?thesis by (simp add: valuesBody_def)
    next
      case False
      then have fresh: "(\<not> IsZero ts \<and> After (it_NowStale env) ts) = False" by simp
      show ?thesis
      proof (cases "it_Commit env")
        case None
        let ?kept = "accepted [(it_TakesPrice env, ?p), (it_TakesVolume env, ?v)]"
        have kept: "sorted (map smp_t ?kept)" "set ?kept \<subseteq> set [?p, ?v]"
          using new(1) by (auto simp: accepted_two)
        from GetOk fresh None
        have "appended (valuesBody sanitize symbol ds env st) = appended st @ [?p, ?v]"
          "store (valuesBody sanitize symbol ds env st) = store st @ ?kept"
          by (auto simp: valuesBody_def Let_def)
        then show ?thesis
          using ordered_grow [OF assms(1,2) _ _ new kept] by blast
      next
        case (Some e)
        from GetOk fresh Some
        have "appended (valuesBody sanitize symbol ds env st) = appended st @ [?p, ?v]"
          "store (valuesBody sanitize symbol ds env st) = store st @ []"
          by (auto simp: valuesBody_def Let_def)
        then show ?thesis
          using ordered_grow [OF assms(1,2) _ _ new, of _ "[]"] by simp
      qed
    qed
  next
    case (GetErr e)
    with idle show ?thesis by (simp add: valuesBody_def)
  next
    case GetPanic
    with idle show ?thesis by (simp add: valuesBody_def)
  qed
qed

lemma values_step_ordered:
  assumes "sorted (valuesClock ev @ us)" and "ordered st (valuesClock ev @ us)"
  shows "ordered (recordValuesStep sanitize symbol ds st ev) us"
proof (cases ev)
  case (Exec env)
  show ?thesis
  proof (cases "pc st = AtBody")
    case True
    with Exec assms valuesBody_ordered [of env us st] show ?thesis by simp
  next
    case False
    with Exec assms ordered_tail [of st "valuesClock ev" us] show ?thesis by simp
  qed
qed (use assms in \<open>auto simp: ordered_def\<close>)

lemma values_run_ordered:
  "sorted (concat (map valuesClock evs)) \<Longrightarrow> ordered st (concat (map valuesClock evs))
     \<Longrightarrow> ordered (foldl (recordValuesStep sanitize symbol ds) st evs) []"
proof (induction evs arbitrary: st)
  case Nil
  then show ?case by simp
next
  case (Cons ev evs)
  have "ordered (recordValuesStep sanitize symbol ds st ev) (concat (map valuesClock evs))"
    using Cons.prems values_step_ordered [of ev "concat (map valuesClock evs)" st] by simp
  moreover have "sorted (concat (map valuesClock evs))"
    using Cons.prems(1) by (simp add: sorted_append)
  ultimately show ?case
    using Cons.IH by simp
qed

lemma countBody_ordered:
  assumes "sorted ([ce_Now env] @ us)" and "ordered st ([ce_Now env] @ us)"
  shows "ordered (countBody sanitize count symbol env st) us"
proof -
  let ?c = "countSample sanitize symbol (ce_Now env) count"
  have new: "sorted (map smp_t [?c])" "\<forall>s \<in> set [?c]. \<exists>t \<in> set [ce_Now env]. smp_t s = FromTime t"
    by (simp_all add: countSample_def)
  show ?thesis
  proof (cases "ce_Commit env")
    case None
    let ?kept = "accepted [(ce_Takes env, ?c)]"
    have kept: "sorted (map smp_t ?kept)" "set ?kept \<subseteq> set [?c]"
      by (auto simp: accepted_one)
    from None have "appended (countBody sanitize count symbol env st) = appended st @ [?c]"
      "store (countBody sanitize count symbol env st) = store st @ ?kept"
      by (simp_all add: countBody_def Let_def)
    then show ?thesis
      using ordered_grow [OF assms(1,2) _ _ new kept] by blast
  next
    case (Some e)
    then have "appended (countBody sanitize count symbol env st) = appended st @ [?c]"
      "store (countBody sanitize count symbol env st) = store st @ []"
      by (simp_all add: countBody_def Let_def)
    then show ?thesis
      using ordered_grow [OF assms(1,2) _ _ new, of _ "[]"] by simp
  qed
qed

lemma count_step_ordered:
  assumes "sorted (countClock ev @ us)" and "ordered st (countClock ev @ us)"
  shows "ordered (recordApiCountStep sanitize count symbol st ev) us"
proof (cases ev)
  case (Exec env)
  show ?thesis
  proof (cases "pc st = AtBody")
    case True
    with Exec assms countBody_ordered [of env us st] show ?thesis by simp
  next
    case False
    with Exec assms ordered_tail [of st "countClock ev" us] show ?thesis by simp
  qed
qed (use assms in \<open>auto simp: ordered_def\<close>)

lemma count_run_ordered:
  "sorted (concat (map countClock evs)) \<Longrightarrow> ordered st (concat (map countClock evs))
     \<Longrightarrow> ordered (foldl (recordApiCountStep sanitize count symbol) st evs) []"
proof (induction evs arbitrary: st)
  case Nil
  then show ?case by simp
next
  case (Cons ev evs)
  have "ordered (recordApiCountStep sanitize count symbol st ev) (concat (map countClock evs))"
    using Cons.prems count_step_ordered [of ev "concat (map countClock evs)" st] by simp
  moreover have "sorted (concat (map countClock evs))"
    using Cons.prems(1) by (simp add: sorted_append)
  ultimately show ?case
    using Cons.IH by simp
qed

lemma sorted_series: "sorted (map smp_t xs) \<Longrightarrow> sorted (map smp_t (filter P xs))"
  by (rule sorted_filter)

text \<open>
  C8, with the condition it rests on. The loops stamp every sample with the wall clock
  and compare no timestamps. Provided the readings of the wall clock that a worker
  takes for its \<open>Append\<close> calls do not go back, the timestamps of the samples it hands to
  \<open>Append\<close> for any one series (one set of labels), and of those the store takes, never
  decrease: for a value loop and for an api-count loop, over every run.
\<close>

theorem C8_series_timestamps_never_decrease:
  "(sorted (concat (map valuesClock evs)) \<longrightarrow>
      sorted (map smp_t (filter (\<lambda>s. smp_labels s = series)
        (appended (recordValues sanitize delay symbol interval dataSource evs (startValues done errs)))))
      \<and> sorted (map smp_t (filter (\<lambda>s. smp_labels s = series)
        (store (recordValues sanitize delay symbol interval dataSource evs (startValues done errs))))))
   \<and> (sorted (concat (map countClock cevs)) \<longrightarrow>
      sorted (map smp_t (filter (\<lambda>s. smp_labels s = series)
        (appended (recordApiCount sanitize count symbol cevs (startApiCount done errs)))))
      \<and> sorted (map smp_t (filter (\<lambda>s. smp_labels s = series)
        (store (recordApiCount sanitize count symbol cevs (startApiCount done errs))))))"
proof -
  have v: "ordered (startValues done errs) ts" for ts
    by (simp add: ordered_def startValues_def)
  have c: "ordered (startApiCount done errs) ts" for ts
    by (simp add: ordered_def startApiCount_def)
  show ?thesis
    unfolding recordValues_def recordApiCount_def
    using values_run_ordered [OF _ v, of evs sanitize symbol dataSource]
      count_run_ordered [OF _ c, of cevs sanitize count symbol]
    by (auto simp: ordered_def intro: sorted_series)
qed

text \<open>
  Two rounds of a value loop, at 1 s and at 2 s: the price series of the source holds
  the timestamps 1000 and 2000, in this order.
\<close>

theorem C8_witness:
  "map smp_t (filter (\<lambda>s. smp_labels s = [(''__name__'', ''ETH_USD_price''), (''source'', ''manualData.json'')])
      (store (recordValues exampleSanitize 0 ''ETH/USD'' (30 * Second) exampleFile
        [Wake, Select, Exec (exampleIterEnv (Inr ''{}'') (10, 0, zeroTime) 1000000000 None),
         Tick, Select, Exec (exampleIterEnv (Inr ''{}'') (11, 0, zeroTime) 2000000000 None)]
        (startValues False (\<lambda>source. 0))))) = [1000, 2000]
   \<and> sorted (map smp_t (filter (\<lambda>s. smp_labels s = [(''__name__'', ''ETH_USD_price''), (''source'', ''manualData.json'')])
      (appended (recordValues exampleSanitize 0 ''ETH/USD'' (30 * Second) exampleFile
        [Wake, Select, Exec (exampleIterEnv (Inr ''{}'') (10, 0, zeroTime) 1000000000 None),
         Tick, Select, Exec (exampleIterEnv (Inr ''{}'') (11, 0, zeroTime) 2000000000 None)]
        (startValues False (\<lambda>source. 0))))))
   \<and> sorted (map smp_t (filter (\<lambda>s. smp_labels s = [(''__name__'', ''ETH_USD_api_count'')])
      (store (recordApiCount exampleSanitize 3 ''ETH/USD''
        [Select, Exec \<lparr>ce_Now = 1000000000, ce_Takes = True, ce_Commit = None\<rparr>,
         Tick, Select, Exec \<lparr>ce_Now = 2000000000, ce_Takes = True, ce_Commit = None\<rparr>]
        (startApiCount False (\<lambda>source. 0))))))"
proof -
  have clock: "sorted (concat (map valuesClock
        [Wake, Select, Exec (exampleIterEnv (Inr ''{}'') (10, 0, zeroTime) 1000000000 None),
         Tick, Select, Exec (exampleIterEnv (Inr ''{}'') (11, 0, zeroTime) 2000000000 None)]))"
    by (simp add: exampleIterEnv_def)
  have cclock: "sorted (concat (map countClock
        [Select, Exec \<lparr>ce_Now = 1000000000, ce_Takes = True, ce_Commit = None\<rparr>,
         Tick, Select, Exec \<lparr>ce_Now = 2000000000, ce_Takes = True, ce_Commit = None\<rparr>]))"
    by simp
  have run: "map smp_t (filter (\<lambda>s. smp_labels s = [(''__name__'', ''ETH_USD_price''), (''source'', ''manualData.json'')])
      (store (recordValues exampleSanitize 0 ''ETH/USD'' (30 * Second) exampleFile
        [Wake, Select, Exec (exampleIterEnv (Inr ''{}'') (10, 0, zeroTime) 1000000000 None),
         Tick, Select, Exec (exampleIterEnv (Inr ''{}'') (11, 0, zeroTime) 2000000000 None)]
        (startValues False (\<lambda>source. 0))))) = [1000, 2000]"
    by (simp add: recordValues_def startValues_def valuesBody_def exampleFile_def exampleIterEnv_def
        IsZero_def priceSample_def volumeSample_def exampleSanitize_def PriceSuffix_def
        VolumeSuffix_def FromTime_def Second_eq Millisecond_eq Let_def accepted_def)
  show ?thesis
    using clock cclock run
      C8_series_timestamps_never_decrease [of
        "[Wake, Select, Exec (exampleIterEnv (Inr ''{}'') (10, 0, zeroTime) 1000000000 None),
          Tick, Select, Exec (exampleIterEnv (Inr ''{}'') (11, 0, zeroTime) 2000000000 None)]"
        "[(''__name__'', ''ETH_USD_price''), (''source'', ''manualData.json'')]"
        exampleSanitize 0 "''ETH/USD''" "30 * Second" exampleFile False "\<lambda>source. 0"]
      C8_series_timestamps_never_decrease [of "[]"
        "[(''__name__'', ''ETH_USD_api_count'')]"
        exampleSanitize 0 "''ETH/USD''" "30 * Second" exampleFile False "\<lambda>source. 0"
        "[Select, Exec \<lparr>ce_Now = 1000000000, ce_Takes = True, ce_Commit = None\<rparr>,
          Tick, Select, Exec \<lparr>ce_Now = 2000000000, ce_Takes = True, ce_Commit = None\<rparr>]" 3]
    by blast
qed

text \<open>
  Without the condition the order fails. The wall clock is set back by a second between
  two rounds of a value loop on the manual file: the worker hands to \<open>Append\<close>, for the
  price series of the source, first the timestamp 2000 and then the timestamp 1000.
  (Here the store refuses the later pair as out of order, which the body does not
  notice, and keeps the first pair only.)
\<close>

theorem C8_clock_set_back_counterexample:
  "map smp_t (filter (\<lambda>s. smp_labels s = [(''__name__'', ''ETH_USD_price''), (''source'', ''manualData.json'')])
      (appended (recordValues exampleSanitize 0 ''ETH/USD'' (30 * Second) exampleFile
        [Wake, Select, Exec (exampleIterEnv (Inr ''{}'') (10, 0, zeroTime) 2000000000 None),
         Tick, Select,
         Exec ((exampleIterEnv (Inr ''{}'') (11, 0, zeroTime) 1000000000 None)
           \<lparr>it_TakesPrice := False, it_TakesVolume := False\<rparr>)]
        (startValues False (\<lambda>source. 0))))) = [2000, 1000]
   \<and> map smp_t (filter (\<lambda>s. smp_labels s = [(''__name__'', ''ETH_USD_price''), (''source'', ''manualData.json'')])
      (store (recordValues exampleSanitize 0 ''ETH/USD'' (30 * Second) exampleFile
        [Wake, Select, Exec (exampleIterEnv (Inr ''{}'') (10, 0, zeroTime) 2000000000 None),
         Tick, Select,
         Exec ((exampleIterEnv (Inr ''{}'') (11, 0, zeroTime) 1000000000 None)
           \<lparr>it_TakesPrice := False, it_TakesVolume := False\<rparr>)]
        (startValues False (\<lambda>source. 0))))) = [2000]
   \<and> \<not> sorted [2000, 1000 :: int]"
  by (simp add: recordValues_def startValues_def valuesBody_def exampleFile_def exampleIterEnv_def
      IsZero_def priceSample_def volumeSample_def exampleSanitize_def PriceSuffix_def
      VolumeSuffix_def FromTime_def Second_eq Millisecond_eq Let_def accepted_def)

subsection \<open>The retention window\<close>

text \<open>
  C9. The retention window handed to the store should be 48 hours, that is 172800000
  in the store's unit, the millisecond. The code stores the nanosecond count of 48
  hours in the field: 172800000000000, which the store reads as a million times 48
  hours.
\<close>

theorem C9_retention_is_nanoseconds:
  "RetentionDuration (mineCmdTsdbOptions defaultOptions) = 172800000000000
   \<and> Milliseconds (48 * Hour) = 172800000
   \<and> RetentionDuration (mineCmdTsdbOptions defaultOptions) \<noteq> Milliseconds (48 * Hour)
   \<and> ofMilliseconds (RetentionDuration (mineCmdTsdbOptions defaultOptions)) = 1000000 * (48 * Hour)"
proof -
  have r: "RetentionDuration (mineCmdTsdbOptions defaultOptions) = 172800000000000"
    by (simp add: mineCmdTsdbOptions_def Hour_eq int64_def)
  have m: "Milliseconds (48 * Hour) = 172800000"
    by (simp add: Milliseconds_def Hour_eq Millisecond_eq)
  have b: "ofMilliseconds 172800000000000 = 1000000 * (48 * Hour)"
    by (simp add: ofMilliseconds_def Hour_eq Millisecond_eq)
  show ?thesis
    using r m b by simp
qed

subsection \<open>Manual sources\<close>

text \<open>
  C10. A descriptor of type manualData becomes a \<open>JSONfile\<close> on the configured
  \<open>ManualDataFile\<close>: that path is its \<open>Source\<close> and the file every \<open>Get\<close> reads, and the
  descriptor's URL has no part in it, so descriptors that differ in the URL only give
  the same source.
\<close>

theorem C10_manual_source_ignores_URL:
  assumes "api_Type api = manualSource"
  shows "(let parser = (if api_Parser api = [] \<or> api_Parser api = jsonPathParser
                        then JsonPathParser (api_Param api) else NilParser);
              source = JSONfile parser (cfg_ManualDataFile cfg)
          in createDataSource env cfg symbol api = Built source
             \<and> Source source = cfg_ManualDataFile cfg
             \<and> Get ienv source =
                 (case it_ReadFile ienv (cfg_ManualDataFile cfg) of
                    Inl e \<Rightarrow> GetErr e | Inr b \<Rightarrow> Parse ienv parser b)
             \<and> createDataSource env cfg symbol (api\<lparr>api_URL := url\<rparr>) = Built source)"
proof -
  have built: "createDataSource env cfg symbol (api\<lparr>api_URL := u\<rparr>)
           = Built (JSONfile (if api_Parser api = [] \<or> api_Parser api = jsonPathParser
                              then JsonPathParser (api_Param api) else NilParser)
                      (cfg_ManualDataFile cfg))" for u
    using assms
    by (simp add: createDataSource_def Let_def manualSource_def httpSource_def NewJSONfile_def
        NewParser_def)
  from built [of "api_URL api"] have b0: "createDataSource env cfg symbol api
           = Built (JSONfile (if api_Parser api = [] \<or> api_Parser api = jsonPathParser
                              then JsonPathParser (api_Param api) else NilParser)
                      (cfg_ManualDataFile cfg))"
    by simp
  show ?thesis
    unfolding Let_def using built [of url] b0 by simp
qed

text \<open>A manual descriptor with another URL gives the source of the configured file.\<close>

theorem C10_witness:
  "createDataSource (exampleLoadEnv []) exampleCfg ''ETH/USD''
       ((exampleApi ''manualData'' ''jsonPath'' 0)\<lparr>api_URL := ''/tmp/a.json''\<rparr>)
     = Built (JSONfile (JsonPathParser ''$.p'') ''manualData.json'')
   \<and> createDataSource (exampleLoadEnv []) exampleCfg ''ETH/USD''
       ((exampleApi ''manualData'' ''jsonPath'' 0)\<lparr>api_URL := ''/tmp/a.json''\<rparr>)
     = createDataSource (exampleLoadEnv []) exampleCfg ''ETH/USD'' (exampleApi ''manualData'' ''jsonPath'' 0)"
  using C10_manual_source_ignores_URL [where api = "exampleApi ''manualData'' ''jsonPath'' 0"
      and env = "exampleLoadEnv []" and cfg = exampleCfg and symbol = "''ETH/USD''"
      and ienv = "exampleIterEnv (Inr ''{}'') (10, 0, zeroTime) 0 None" and url = "''/tmp/a.json''"]
  by (simp add: exampleApi_def manualSource_def jsonPathParser_def exampleCfg_def Let_def)

end
